theory Spec2Isabelle
  imports Complex_Main "HOL-Library.Char_ord"
begin

section \<open>A shallow embedding of check\_mongodb\_mms\<close>

text \<open>
  The probe is modelled as a function from its parsed command-line flags and its
  environment to the sequence of calls it makes on the outside world: lines written to
  standard output, the process exit, HTTP requests, and the calls on the nagiosplugin
  check object (\<open>ParseRange\<close>, \<open>AddPerfDatum\<close>, \<open>AddResultf\<close>, \<open>Finish\<close>).
  Go strings are byte sequences and are modelled as \<^typ>\<open>string\<close>; an \<open>error\<close> is
  modelled by its text; \<open>float64\<close> is idealised as \<^typ>\<open>real\<close>.
\<close>

subsection \<open>Time\<close>

text \<open>
  A \<open>time.Time\<close> is an instant in nanoseconds, a \<open>time.Duration\<close> a signed 64-bit count
  of nanoseconds. \<open>time.Since\<close> reads the clock and subtracts; the subtraction saturates
  at the largest and smallest duration.
\<close>

type_synonym Time = int
type_synonym Duration = int

definition maxDuration :: Duration where
  "maxDuration = 2 ^ 63 - 1"

definition minDuration :: Duration where
  "minDuration = - (2 ^ 63)"

definition Since :: "Time \<Rightarrow> Time \<Rightarrow> Duration" where
  "Since now t = (if now - t > maxDuration then maxDuration
                  else if now - t < minDuration then minDuration
                  else now - t)"

text \<open>
  \<open>Duration.Seconds\<close> gives a \<open>float64\<close>; it is taken here as the exact quotient, without
  the rounding of the floating-point division.
\<close>

definition Seconds :: "Duration \<Rightarrow> real" where
  "Seconds d = real_of_int d / 1000000000"

text \<open>The conversion \<open>int(x)\<close> of a float: the fraction is discarded (truncation towards zero).\<close>

definition go_int :: "real \<Rightarrow> int" where
  "go_int x = (if x < 0 then \<lceil>x\<rceil> else \<lfloor>x\<rfloor>)"

subsection \<open>Formatting\<close>

text \<open>The verb \<open>%v\<close> on an \<open>int\<close>: decimal digits, with a minus sign when negative.\<close>

definition digit_char :: "nat \<Rightarrow> char" where
  "digit_char n = ''0123456789'' ! n"

fun itoa_nat :: "nat \<Rightarrow> string" where
  "itoa_nat n = (if n < 10 then [digit_char n] else itoa_nat (n div 10) @ [digit_char (n mod 10)])"

declare itoa_nat.simps [simp del]

definition itoa :: "int \<Rightarrow> string" where
  "itoa i = (if i < 0 then CHR ''-'' # itoa_nat (nat (- i)) else itoa_nat (nat i))"

subsection \<open>Percent-encoding of a path piece (util/api.go)\<close>

text \<open>
  \<open>url.QueryEscape\<close> of the standard library: a byte is kept when it is unreserved
  (a letter, a digit, or one of \<open>- _ . ~\<close>); in a query component every other byte,
  the reserved ones included, is escaped; a space becomes \<open>+\<close>, any other escaped byte
  becomes \<open>%\<close> followed by its two upper-case hexadecimal digits.
\<close>

definition reserved :: "char set" where
  "reserved = set ''$&+,/:;=?@''"

definition shouldEscape :: "char \<Rightarrow> bool" where
  "shouldEscape c =
     (if (CHR ''a'' \<le> c \<and> c \<le> CHR ''z'') \<or> (CHR ''A'' \<le> c \<and> c \<le> CHR ''Z'')
          \<or> (CHR ''0'' \<le> c \<and> c \<le> CHR ''9'') then False
      else if c = CHR ''-'' \<or> c = CHR ''_'' \<or> c = CHR ''.'' \<or> c = CHR ''~'' then False
      else if c \<in> reserved then True
      else True)"

definition upperhex :: string where
  "upperhex = ''0123456789ABCDEF''"

definition QueryEscape_byte :: "char \<Rightarrow> string" where
  "QueryEscape_byte c =
     (if shouldEscape c then
        (if c = CHR '' '' then ''+''
         else [CHR ''%'', upperhex ! (of_char c div 16), upperhex ! (of_char c mod 16)])
      else [c])"

definition QueryEscape :: "string \<Rightarrow> string" where
  "QueryEscape s = concat (map QueryEscape_byte s)"

text \<open>\<open>strings.Replace(s, "+", "%20", -1)\<close>: every \<open>+\<close> is replaced.\<close>

definition Replace_plus :: "string \<Rightarrow> string" where
  "Replace_plus s = concat (map (\<lambda>c. if c = CHR ''+'' then ''%20'' else [c]) s)"

definition escape :: "string \<Rightarrow> string" where
  "escape piece = Replace_plus (QueryEscape piece)"

subsection \<open>The data model\<close>

text \<open>
  The package \<open>model\<close> is used through the fields read here: a host has an identifier
  and the instant of its last ping; a metric is a sequence of data points, each with a
  timestamp and a value.
\<close>

record Host =
  Id_host :: string
  LastPing :: Time

text \<open>The value of a data point is decoded from a JSON number, so it is a finite number.\<close>

record DataPoint =
  Timestamp :: Time
  Value :: real

record Metric =
  DataPoints :: "DataPoint list"

text \<open>The command-line flags, global variables of package \<open>main\<close> set by \<open>setupFlags\<close>.\<close>

record Flags =
  groupId :: string
  hostname :: string
  metricName :: string
  dbName :: string
  server :: string
  warning :: string
  critical :: string
  timeout :: int
  maxAge :: int
  granularity :: string
  period :: string
  username :: string
  apiKey :: string

text \<open>The severities of nagiosplugin.\<close>

datatype Status = OK | WARNING | CRITICAL | UNKNOWN

text \<open>The kind of a JSON document, given by its first token.\<close>

datatype json_kind = KNull | KBool | KNumber | KString | KArray | KObject

text \<open>A value as \<open>encoding/json\<close> stores it in an \<open>interface{}\<close>.\<close>

datatype go_value =
    GoNil
  | GoBool bool
  | GoFloat real
  | GoString string
  | GoSlice "go_value list"
  | GoMap "(string \<times> go_value) list"

text \<open>What \<open>client.Get\<close> followed by \<open>ioutil.ReadAll\<close> can give.\<close>

datatype http_outcome =
    GetFailed string
  | ReadFailed string
  | Response int string

text \<open>The calls the program makes on the outside world, in the order it makes them.\<close>

datatype event =
    Stdout string
  | Exit int
  | HttpGet string
  | ParseRangeCall string
  | AddPerfDatum string string real
  | AddResult Status string
  | Finish

text \<open>
  The environment: everything the program reads from outside its own source.
  \<^item> \<open>clientError\<close>: the error of \<open>t.Client()\<close> in \<open>NewMMSAPI\<close>, if any;
  \<^item> \<open>httpGet k uri\<close>: the outcome of the \<open>k\<close>-th HTTP request of the run, sent to \<open>uri\<close>;
  \<^item> \<open>jsonKind\<close>: the JSON grammar as \<open>encoding/json\<close> checks it before it decodes:
    \<open>None\<close> for a text that is not valid JSON, else the kind of the document;
  \<^item> \<open>storeObject\<close>: what \<open>json.Unmarshal\<close> leaves in a \<open>map[string]interface{}\<close>
    for a text that is a JSON object, or \<open>None\<close> when it returns an error for it (a
    member that cannot be stored, such as a number outside \<open>float64\<close>);
  \<^item> \<open>decodeHost\<close>, \<open>decodeMetric\<close>: \<open>json.Unmarshal\<close> into a host and into a metric,
    with the decoder's error text on failure;
  \<^item> \<open>ParseRange\<close>, \<open>RangeCheck\<close>: the threshold parser and the range test of
    nagiosplugin, over its own type of ranges \<open>'r\<close>;
  \<^item> \<open>fmtFloat\<close>, \<open>fmtValue\<close>: the verb \<open>%v\<close> on a \<open>float64\<close> and on a decoded number,
    array or object held in an \<open>interface{}\<close>;
  \<^item> \<open>Sprintf0\<close>: \<open>fmt.Sprintf\<close> of a format with no operand;
  \<^item> \<open>ToStringLastDataPoint\<close>: the summary method of a metric;
  \<^item> \<open>clock\<close>: the instant read by \<open>time.Since\<close>.
\<close>

record 'r env =
  clientError :: "string option"
  httpGet :: "nat \<Rightarrow> string \<Rightarrow> http_outcome"
  jsonKind :: "string \<Rightarrow> json_kind option"
  storeObject :: "string \<Rightarrow> (string \<rightharpoonup> go_value) option"
  decodeHost :: "string \<Rightarrow> string + Host"
  decodeMetric :: "string \<Rightarrow> string + Metric"
  ParseRange :: "string \<Rightarrow> string + 'r"
  RangeCheck :: "'r \<Rightarrow> real \<Rightarrow> bool"
  fmtFloat :: "real \<Rightarrow> string"
  fmtValue :: "go_value \<Rightarrow> string"
  Sprintf0 :: "string \<Rightarrow> string"
  ToStringLastDataPoint :: "Metric \<Rightarrow> string"
  clock :: Time

text \<open>What a trace leaves on the check object, and what it sent, printed and parsed.\<close>

fun results :: "event list \<Rightarrow> (Status \<times> string) list" where
  "results [] = []"
| "results (AddResult st msg # es) = (st, msg) # results es"
| "results (e # es) = results es"

fun perfdata :: "event list \<Rightarrow> (string \<times> string \<times> real) list" where
  "perfdata [] = []"
| "perfdata (AddPerfDatum label unit v # es) = (label, unit, v) # perfdata es"
| "perfdata (e # es) = perfdata es"

fun requests :: "event list \<Rightarrow> string list" where
  "requests [] = []"
| "requests (HttpGet uri # es) = uri # requests es"
| "requests (e # es) = requests es"

fun stdout :: "event list \<Rightarrow> string list" where
  "stdout [] = []"
| "stdout (Stdout text # es) = text # stdout es"
| "stdout (e # es) = stdout es"

fun parsed :: "event list \<Rightarrow> string list" where
  "parsed [] = []"
| "parsed (ParseRangeCall spec # es) = spec # parsed es"
| "parsed (e # es) = parsed es"

subsection \<open>The API client (util/api.go)\<close>

record MMSAPI =
  api_hostname :: string

definition NewMMSAPI :: "'r env \<Rightarrow> string \<Rightarrow> int \<Rightarrow> string \<Rightarrow> string \<Rightarrow> string + MMSAPI" where
  "NewMMSAPI E hostname' timeout' username' apiKey' =
     (case clientError E of
        Some err \<Rightarrow> Inl err
      | None \<Rightarrow> Inr \<lparr>api_hostname = hostname'\<rparr>)"

text \<open>
  \<open>json.Unmarshal\<close> into a \<open>map[string]interface{}\<close>, with \<open>None\<close> for a returned
  error: a text that is not valid JSON is an error; an object is stored member by
  member, which can itself end in an error; \<open>null\<close> leaves the map nil without an
  error; a document of any other kind is an error.
\<close>

definition unmarshalMap :: "'r env \<Rightarrow> string \<Rightarrow> (string \<rightharpoonup> go_value) option" where
  "unmarshalMap E body =
     (case jsonKind E body of
        None \<Rightarrow> None
      | Some kind \<Rightarrow>
          (case kind of
             KObject \<Rightarrow> storeObject E body
           | KNull \<Rightarrow> Some Map.empty
           | KBool \<Rightarrow> None
           | KNumber \<Rightarrow> None
           | KString \<Rightarrow> None
           | KArray \<Rightarrow> None))"

text \<open>The verb \<open>%v\<close> on the \<open>interface{}\<close> read from such a map; a missing key reads as nil.\<close>

fun fmt_v :: "'r env \<Rightarrow> go_value option \<Rightarrow> string" where
  "fmt_v E None = ''<nil>''"
| "fmt_v E (Some GoNil) = ''<nil>''"
| "fmt_v E (Some (GoString s)) = s"
| "fmt_v E (Some (GoBool b)) = (if b then ''true'' else ''false'')"
| "fmt_v E (Some v) = fmtValue E v"

definition handleError :: "'r env \<Rightarrow> int \<Rightarrow> string \<Rightarrow> string" where
  "handleError E statusCode body =
     (case unmarshalMap E body of
        None \<Rightarrow> ''API response did not contain valid JSON. Body: '' @ body
      | Some jsonBody \<Rightarrow>
          ''API Error: '' @ fmt_v E (jsonBody ''reason'') @ '' ('' @ fmt_v E (jsonBody ''detail'') @ '')'')"

text \<open>
  Each fetch returns the requests it sent together with its result; \<open>k\<close> is the number
  of requests sent before it in the run.
\<close>

definition doGet :: "'r env \<Rightarrow> MMSAPI \<Rightarrow> nat \<Rightarrow> string \<Rightarrow> event list \<times> (string + string)" where
  "doGet E api k path =
     (let uri = api_hostname api @ ''/api/public/v1.0'' @ path in
      ([HttpGet uri],
       case httpGet E k uri of
         GetFailed err \<Rightarrow> Inl (''Failed to make HTTP request. Error: '' @ err)
       | ReadFailed err \<Rightarrow> Inl (''Failed to read HTTP response body. Error: '' @ err)
       | Response statusCode body \<Rightarrow>
           if statusCode \<noteq> 200 then Inl (handleError E statusCode body) else Inr body))"

definition unMarshalJSON :: "(string \<Rightarrow> string + 'a) \<Rightarrow> string \<Rightarrow> string + 'a" where
  "unMarshalJSON decode payload =
     (case decode payload of
        Inl err \<Rightarrow> Inl (''Response did not contain valid JSON. Error: '' @ err @ '', Body: '' @ payload)
      | Inr v \<Rightarrow> Inr v)"

definition hostByNamePath :: "string \<Rightarrow> string \<Rightarrow> string" where
  "hostByNamePath groupId' name = ''/groups/'' @ groupId' @ ''/hosts/byName/'' @ name"

definition hostMetricPath :: "string \<Rightarrow> string \<Rightarrow> string \<Rightarrow> string \<Rightarrow> string \<Rightarrow> string" where
  "hostMetricPath groupId' hostId metricName' granularity' period' =
     ''/groups/'' @ groupId' @ ''/hosts/'' @ hostId @ ''/metrics/'' @ metricName'
       @ ''?granularity='' @ granularity' @ ''&period=PT'' @ period'"

definition hostDBMetricPath ::
    "string \<Rightarrow> string \<Rightarrow> string \<Rightarrow> string \<Rightarrow> string \<Rightarrow> string \<Rightarrow> string" where
  "hostDBMetricPath groupId' hostId metricName' dbName' granularity' period' =
     ''/groups/'' @ groupId' @ ''/hosts/'' @ hostId @ ''/metrics/'' @ metricName' @ ''/''
       @ escape dbName' @ ''?granularity='' @ granularity' @ ''&period=PT'' @ period'"

definition GetHostByName ::
    "'r env \<Rightarrow> MMSAPI \<Rightarrow> nat \<Rightarrow> string \<Rightarrow> string \<Rightarrow> event list \<times> (string + Host)" where
  "GetHostByName E api k groupId' name =
     (case doGet E api k (hostByNamePath groupId' name) of
        (evs, Inl err) \<Rightarrow> (evs, Inl err)
      | (evs, Inr body) \<Rightarrow> (evs, unMarshalJSON (decodeHost E) body))"

definition GetHostMetric ::
    "'r env \<Rightarrow> MMSAPI \<Rightarrow> nat \<Rightarrow> string \<Rightarrow> string \<Rightarrow> string \<Rightarrow> string \<Rightarrow> string
      \<Rightarrow> event list \<times> (string + Metric)" where
  "GetHostMetric E api k groupId' hostId metricName' granularity' period' =
     (case doGet E api k (hostMetricPath groupId' hostId metricName' granularity' period') of
        (evs, Inl err) \<Rightarrow> (evs, Inl err)
      | (evs, Inr body) \<Rightarrow> (evs, unMarshalJSON (decodeMetric E) body))"

definition GetHostDBMetric ::
    "'r env \<Rightarrow> MMSAPI \<Rightarrow> nat \<Rightarrow> string \<Rightarrow> string \<Rightarrow> string \<Rightarrow> string \<Rightarrow> string \<Rightarrow> string
      \<Rightarrow> event list \<times> (string + Metric)" where
  "GetHostDBMetric E api k groupId' hostId metricName' dbName' granularity' period' =
     (case doGet E api k (hostDBMetricPath groupId' hostId metricName' dbName' granularity' period') of
        (evs, Inl err) \<Rightarrow> (evs, Inl err)
      | (evs, Inr body) \<Rightarrow> (evs, unMarshalJSON (decodeMetric E) body))"

subsection \<open>The usage text (setupFlags)\<close>

definition groupIdUsage :: string where
  "groupIdUsage = ''The MMS/Ops Manager group ID that contains the server''"

definition hostnameUsage :: string where
  "hostnameUsage = ''hostname:port of the mongod/s to check''"

definition metricUsage :: string where
  "metricUsage = ''metric to query''"

definition dbNameDefault :: string where
  "dbNameDefault = []"

definition dbNameUsage :: string where
  "dbNameUsage = ''database name for DB_ metrics''"

definition serverDefault :: string where
  "serverDefault = ''https://mms.mongodb.com''"

definition serverUsage :: string where
  "serverUsage = ''hostname and port of the MMS/Ops Manager service''"

definition warningDefault :: string where
  "warningDefault = ''~:''"

definition warningUsage :: string where
  "warningUsage = ''warning threshold for given metric''"

definition criticalDefault :: string where
  "criticalDefault = ''~:''"

definition criticalUsage :: string where
  "criticalUsage = ''critical threshold for given metric''"

definition timeoutDefault :: int where
  "timeoutDefault = 10"

definition timeoutUsage :: string where
  "timeoutUsage = ''connection timeout connecting MMS/Ops Manager service''"

definition maxAgeDefault :: int where
  "maxAgeDefault = 360"

definition maxAgeUsage :: string where
  "maxAgeUsage = ''the maximum number of seconds old a metric before it is considerd stale''"

definition granularityDefault :: string where
  "granularityDefault = ''MINUTE''"

definition granularityUsage :: string where
  "granularityUsage = ''the size of the epoch. Acceptable values are MINUTE HOUR DAY''"

definition periodDefault :: string where
  "periodDefault = ''1H''"

definition periodUsage :: string where
  "periodUsage = ''the ISO-8601 formatted time period that specifies how far back in the past to query.''"

definition usernameDefault :: string where
  "usernameDefault = []"

definition usernameUsage :: string where
  "usernameUsage = ''the username for auth''"

definition apiKeyDefault :: string where
  "apiKeyDefault = []"

definition apiKeyUsage :: string where
  "apiKeyUsage = ''the api key for the user''"

definition nl :: string where
  "nl = [CHR 0x0A]"

text \<open>\<open>flag.Usage\<close>: one \<open>Fprintf\<close> to \<open>os.Stdout\<close> per element.\<close>

definition Usage :: "event list" where
  "Usage =
     [Stdout (''Usage: check_mongodb_mms  -g groupid -H hostname [-m metric] [-d dbname] [-a age] [-s server] [-t timeout] [-w warning_level] [-c critica_level] [-r granularity] [-p period] [-u username] [-k apikey]'' @ nl),
      Stdout (''     -g, --groupid  '' @ groupIdUsage @ nl),
      Stdout (''     -H, --hostname '' @ hostnameUsage @ nl),
      Stdout (''     -m, --metric (no metric means check last ping age in seconds) '' @ metricUsage @ nl),
      Stdout (''     -d, --dbname (default '' @ dbNameDefault @ '') '' @ dbNameUsage @ nl),
      Stdout (''     -a, --maxage (default '' @ itoa maxAgeDefault @ '') '' @ maxAgeUsage @ nl),
      Stdout (''     -s, --server (default: '' @ serverDefault @ '') '' @ serverUsage @ nl),
      Stdout (''     -w, --warning (default: '' @ warningDefault @ '') '' @ warningUsage @ nl),
      Stdout (''     -c, --critical (default: '' @ criticalDefault @ '') '' @ criticalUsage @ nl),
      Stdout (''     -t, --timeout (default: '' @ itoa timeoutDefault @ '') '' @ timeoutUsage @ nl),
      Stdout (''     -r, --granularity (default: '' @ granularityDefault @ '') '' @ granularityUsage @ nl),
      Stdout (''     -p, --period (default: '' @ periodDefault @ '') '' @ periodUsage @ nl),
      Stdout (''     -u, --username (default: '' @ usernameDefault @ '') '' @ usernameUsage @ nl),
      Stdout (''     -k, --apiKey (default: '' @ apiKeyDefault @ '') '' @ apiKeyUsage @ nl),
      Stdout (nl @ ''     -w and -c support the standard nagios threshold formats.'' @ nl
              @ ''     See https://nagios-plugins.org/doc/guidelines.html#THRESHOLDFORMAT for more details.'' @ nl)]"

subsection \<open>The checks (check\_mongodb\_mms.go)\<close>

text \<open>
  \<open>doMetricCheck\<close> is given in two parts: \<open>fetchMetric\<close> is its choice between the two
  fetches, \<open>evalMetric\<close> is what it does with a fetched metric.
\<close>

definition lastPingMessage :: "'r env \<Rightarrow> Duration \<Rightarrow> string" where
  "lastPingMessage E age = ''Last ping was '' @ fmtFloat E (Seconds age) @ '' seconds ago''"

definition doHostCheck :: "'r env \<Rightarrow> Flags \<Rightarrow> Host \<Rightarrow> event list" where
  "doHostCheck E F host =
     (let age = Since (clock E) (LastPing host) in
      ParseRangeCall (critical F) #
      (case ParseRange E (critical F) of
         Inl err \<Rightarrow> [AddResult UNKNOWN (''Error parsing critical range. Error: '' @ err)]
       | Inr critRange \<Rightarrow>
           if RangeCheck E critRange (Seconds age)
           then [AddResult CRITICAL (Sprintf0 E (lastPingMessage E age))]
           else
             ParseRangeCall (warning F) #
             (case ParseRange E (warning F) of
                Inl err \<Rightarrow> [AddResult UNKNOWN (''Error parsing warning range. Error: '' @ err)]
              | Inr warnRange \<Rightarrow>
                  if RangeCheck E warnRange (Seconds age)
                  then [AddResult WARNING (Sprintf0 E (lastPingMessage E age))]
                  else [AddResult OK (Sprintf0 E (lastPingMessage E age))])))"

definition fetchMetric :: "'r env \<Rightarrow> Flags \<Rightarrow> MMSAPI \<Rightarrow> Host \<Rightarrow> event list \<times> (string + Metric)" where
  "fetchMetric E F api host =
     (if dbName F = []
      then GetHostMetric E api 1 (groupId F) (Id_host host) (metricName F) (granularity F) (period F)
      else GetHostDBMetric E api 1 (groupId F) (Id_host host) (metricName F) (dbName F)
             (granularity F) (period F))"

definition evalMetric :: "'r env \<Rightarrow> Flags \<Rightarrow> Metric \<Rightarrow> event list" where
  "evalMetric E F metric =
     (if length (DataPoints metric) = 0
      then [AddResult UNKNOWN (''No data points found for '' @ metricName F)]
      else
        let lastDataPoint = DataPoints metric ! (length (DataPoints metric) - 1);
            age = Since (clock E) (Timestamp lastDataPoint)
        in
        if go_int (Seconds age) > maxAge F
        then [AddResult CRITICAL (''Last data point for '' @ metricName F @ '' is ''
                                    @ itoa (go_int (Seconds age)) @ '' seconds old.'')]
        else
          AddPerfDatum (metricName F) [] (Value lastDataPoint) #
          ParseRangeCall (critical F) #
          (case ParseRange E (critical F) of
             Inl err \<Rightarrow> [AddResult UNKNOWN (''Error parsing critical range. Error: '' @ err)]
           | Inr critRange \<Rightarrow>
               if RangeCheck E critRange (Value lastDataPoint)
               then [AddResult CRITICAL (Sprintf0 E (ToStringLastDataPoint E metric))]
               else
                 ParseRangeCall (warning F) #
                 (case ParseRange E (warning F) of
                    Inl err \<Rightarrow> [AddResult UNKNOWN (''Error parsing warning range. Error: '' @ err)]
                  | Inr warnRange \<Rightarrow>
                      if RangeCheck E warnRange (Value lastDataPoint)
                      then [AddResult WARNING (Sprintf0 E (ToStringLastDataPoint E metric))]
                      else [AddResult OK (Sprintf0 E (ToStringLastDataPoint E metric))])))"

definition doMetricCheck :: "'r env \<Rightarrow> Flags \<Rightarrow> MMSAPI \<Rightarrow> Host \<Rightarrow> event list" where
  "doMetricCheck E F api host =
     (case fetchMetric E F api host of
        (evs, Inl err) \<Rightarrow> evs @ [AddResult UNKNOWN err]
      | (evs, Inr metric) \<Rightarrow> evs @ evalMetric E F metric)"

text \<open>
  \<open>main\<close>, after \<open>setupFlags\<close> has parsed the command line into \<open>F\<close>. \<open>os.Exit\<close> ends the
  process at once; on every other path the deferred \<open>check.Finish()\<close> runs last.
\<close>

definition main :: "'r env \<Rightarrow> Flags \<Rightarrow> event list" where
  "main E F =
     (if hostname F = [] \<or> groupId F = [] then Usage @ [Exit 2]
      else
        (case NewMMSAPI E (server F) (timeout F) (username F) (apiKey F) of
           Inl err \<Rightarrow> [AddResult UNKNOWN (''Failed to create API. Error: '' @ err)]
         | Inr api \<Rightarrow>
             (case GetHostByName E api 0 (groupId F) (hostname F) of
                (evs, Inl err) \<Rightarrow> evs @ [AddResult UNKNOWN err]
              | (evs, Inr host) \<Rightarrow>
                  evs @ (if metricName F = [] then doHostCheck E F host
                         else doMetricCheck E F api host)))
        @ [Finish])"

text \<open>
  The quantities the two checks evaluate: the age of the last ping in seconds, and the
  value and the age in whole seconds of the last data point of a metric that has one.
\<close>

abbreviation hostAge :: "'r env \<Rightarrow> Host \<Rightarrow> real" where
  "hostAge E host \<equiv> Seconds (Since (clock E) (LastPing host))"

abbreviation lastValue :: "Metric \<Rightarrow> real" where
  "lastValue metric \<equiv> Value (last (DataPoints metric))"

abbreviation dataAge :: "'r env \<Rightarrow> Metric \<Rightarrow> int" where
  "dataAge E metric \<equiv> go_int (Seconds (Since (clock E) (Timestamp (last (DataPoints metric)))))"

subsection \<open>A concrete environment\<close>

text \<open>
  The theorems below hold for every environment. To run the program on concrete inputs
  the environment is instantiated: ranges as closed intervals with optional bounds and a
  sense (section 4.2 of the specification), a threshold parser and two JSON decoders that
  know a handful of texts and reject every other one, and a network that answers the
  first and the second request of the run with two given outcomes.
\<close>

record Range =
  Start :: "real option"
  End :: "real option"
  AlertOnInside :: bool

definition inRange :: "Range \<Rightarrow> real \<Rightarrow> bool" where
  "inRange r v =
     ((case Start r of None \<Rightarrow> True | Some a \<Rightarrow> a \<le> v) \<and>
      (case End r of None \<Rightarrow> True | Some b \<Rightarrow> v \<le> b))"

definition sampleCheck :: "Range \<Rightarrow> real \<Rightarrow> bool" where
  "sampleCheck r v = (if inRange r v then AlertOnInside r else \<not> AlertOnInside r)"

definition sampleParseRange :: "string \<Rightarrow> string + Range" where
  "sampleParseRange spec =
     (if spec = ''~:'' then Inr \<lparr>Start = None, End = None, AlertOnInside = False\<rparr>
      else if spec = ''0:300'' then Inr \<lparr>Start = Some 0, End = Some 300, AlertOnInside = False\<rparr>
      else if spec = ''0:200'' then Inr \<lparr>Start = Some 0, End = Some 200, AlertOnInside = False\<rparr>
      else if spec = ''50:'' then Inr \<lparr>Start = Some 50, End = None, AlertOnInside = False\<rparr>
      else if spec = ''@0:10'' then Inr \<lparr>Start = Some 0, End = Some 10, AlertOnInside = True\<rparr>
      else Inl (''cannot parse range '' @ spec))"

definition quoted :: "string \<Rightarrow> string" where
  "quoted s = CHR 0x22 # s @ [CHR 0x22]"

definition hostBody :: string where
  "hostBody = ''{'' @ quoted ''id'' @ '':'' @ quoted ''h1'' @ '','' @ quoted ''lastPing'' @ '':''
                @ quoted ''1970-01-01T00:00:00Z'' @ ''}''"

definition sampleHost :: Host where
  "sampleHost = \<lparr>Id_host = ''h1'', LastPing = 0\<rparr>"

definition metricBody :: string where
  "metricBody = ''{'' @ quoted ''dataPoints'' @ '':[{'' @ quoted ''timestamp'' @ '':''
                  @ quoted ''1970-01-01T00:00:00Z'' @ '','' @ quoted ''value'' @ '':42}]}''"

definition sampleMetric :: Metric where
  "sampleMetric = \<lparr>DataPoints = [\<lparr>Timestamp = 0, Value = 42\<rparr>]\<rparr>"

definition emptyMetricBody :: string where
  "emptyMetricBody = ''{'' @ quoted ''dataPoints'' @ '':[]}''"

definition errorBody :: string where
  "errorBody = ''{'' @ quoted ''reason'' @ '':'' @ quoted ''Not Found'' @ '','' @ quoted ''detail''
                 @ '':'' @ quoted ''No host h1'' @ ''}''"

definition sampleDecodeHost :: "string \<Rightarrow> string + Host" where
  "sampleDecodeHost body =
     (if body = hostBody then Inr sampleHost else Inl ''unexpected document'')"

definition sampleDecodeMetric :: "string \<Rightarrow> string + Metric" where
  "sampleDecodeMetric body =
     (if body = metricBody then Inr sampleMetric
      else if body = emptyMetricBody then Inr \<lparr>DataPoints = []\<rparr>
      else Inl ''unexpected document'')"

text \<open>An error body whose \<open>reason\<close> is a number that no \<open>float64\<close> holds.\<close>

definition overflowBody :: string where
  "overflowBody = ''{'' @ quoted ''reason'' @ '':1e999,'' @ quoted ''detail'' @ '':'' @ quoted ''x''
                    @ ''}''"

definition sampleJsonKind :: "string \<Rightarrow> json_kind option" where
  "sampleJsonKind body =
     (if body = errorBody then Some KObject
      else if body = overflowBody then Some KObject
      else if body = ''{}'' then Some KObject
      else if body = ''[]'' then Some KArray
      else if body = ''null'' then Some KNull
      else None)"

definition sampleStoreObject :: "string \<Rightarrow> (string \<rightharpoonup> go_value) option" where
  "sampleStoreObject body =
     (if body = errorBody
      then Some [''reason'' \<mapsto> GoString ''Not Found'', ''detail'' \<mapsto> GoString ''No host h1'']
      else if body = ''{}'' then Some Map.empty
      else None)"

definition sampleEnv :: "http_outcome \<Rightarrow> http_outcome \<Rightarrow> Time \<Rightarrow> Range env" where
  "sampleEnv first second now =
     \<lparr>clientError = None,
      httpGet = (\<lambda>k uri. if k = 0 then first else second),
      jsonKind = sampleJsonKind,
      storeObject = sampleStoreObject,
      decodeHost = sampleDecodeHost,
      decodeMetric = sampleDecodeMetric,
      ParseRange = sampleParseRange,
      RangeCheck = sampleCheck,
      fmtFloat = (\<lambda>x. itoa (go_int x)),
      fmtValue = (\<lambda>v. ''?''),
      Sprintf0 = (\<lambda>format. format),
      ToStringLastDataPoint = (\<lambda>m. ''last data point''),
      clock = now\<rparr>"

text \<open>The environment in which both requests succeed, at clock reading \<open>now\<close>.\<close>

definition okEnv :: "Time \<Rightarrow> Range env" where
  "okEnv now = sampleEnv (Response 200 hostBody) (Response 200 metricBody) now"

text \<open>
  Environments in which a request fails: the host request answered with a structured
  error body, the host request not answered at all, the host request answered with a JSON
  array, the metric request answered with a body that is not JSON.
\<close>

definition notFoundEnv :: "Range env" where
  "notFoundEnv = sampleEnv (Response 404 errorBody) (GetFailed ''unused'') 0"

definition timeoutEnv :: "Range env" where
  "timeoutEnv = sampleEnv (GetFailed ''dial tcp: i/o timeout'') (GetFailed ''unused'') 0"

definition arrayBodyEnv :: "Range env" where
  "arrayBodyEnv = sampleEnv (Response 500 ''[]'') (GetFailed ''unused'') 0"

definition badGatewayEnv :: "Range env" where
  "badGatewayEnv = sampleEnv (Response 200 hostBody) (Response 502 ''<html>Bad Gateway</html>'') 0"

definition sampleAPI :: MMSAPI where
  "sampleAPI = \<lparr>api_hostname = serverDefault\<rparr>"

definition sampleFlags :: "string \<Rightarrow> string \<Rightarrow> string \<Rightarrow> string \<Rightarrow> Flags" where
  "sampleFlags metric db warn crit =
     \<lparr>groupId = ''g1'', hostname = ''db1:27017'', metricName = metric, dbName = db,
      server = serverDefault, warning = warn, critical = crit, timeout = timeoutDefault,
      maxAge = maxAgeDefault, granularity = granularityDefault, period = periodDefault,
      username = ''user'', apiKey = ''key''\<rparr>"

section \<open>Properties\<close>

subsection \<open>Projections of a trace\<close>

lemma results_append: "results (xs @ ys) = results xs @ results ys"
  by (induction xs rule: results.induct) simp_all

lemma perfdata_append: "perfdata (xs @ ys) = perfdata xs @ perfdata ys"
  by (induction xs rule: perfdata.induct) simp_all

lemma requests_append: "requests (xs @ ys) = requests xs @ requests ys"
  by (induction xs rule: requests.induct) simp_all

lemma parsed_append: "parsed (xs @ ys) = parsed xs @ parsed ys"
  by (induction xs rule: parsed.induct) simp_all

lemma stdout_append: "stdout (xs @ ys) = stdout xs @ stdout ys"
  by (induction xs rule: stdout.induct) simp_all

lemmas trace_append = results_append perfdata_append requests_append parsed_append stdout_append

subsection \<open>Whole seconds of a duration\<close>

text \<open>
  The whole seconds of a duration are its nanoseconds divided by \<open>10\<^sup>9\<close> with the
  remainder dropped, towards zero for a negative duration too.
\<close>

lemma go_int_Seconds:
  "go_int (Seconds d) = (if d < 0 then - ((- d) div 1000000000) else d div 1000000000)"
proof (cases "d < 0")
  case False
  then have "\<not> Seconds d < 0" by (simp add: Seconds_def)
  moreover have "\<lfloor>Seconds d\<rfloor> = d div 1000000000"
    unfolding Seconds_def using floor_divide_of_int_eq [of d 1000000000, where ?'a = real] by simp
  ultimately show ?thesis using False by (simp add: go_int_def)
next
  case True
  then have neg: "Seconds d < 0" by (simp add: Seconds_def)
  have "\<lceil>Seconds d\<rceil> = - \<lfloor>- Seconds d\<rfloor>" by (simp add: ceiling_def)
  also have "- Seconds d = real_of_int (- d) / real_of_int 1000000000"
    by (simp add: Seconds_def)
  also have "\<lfloor>real_of_int (- d) / real_of_int 1000000000\<rfloor> = (- d) div 1000000000"
    by (rule floor_divide_of_int_eq)
  finally show ?thesis using True neg by (simp add: go_int_def)
qed

subsection \<open>What a fetch sends\<close>

lemma doGet_events:
  "fst (doGet E api k path) = [HttpGet (api_hostname api @ ''/api/public/v1.0'' @ path)]"
  by (simp add: doGet_def Let_def)

lemma GetHostByName_events:
  "fst (GetHostByName E api k g n)
     = [HttpGet (api_hostname api @ ''/api/public/v1.0'' @ hostByNamePath g n)]"
  using doGet_events [of E api k "hostByNamePath g n"]
  by (cases "doGet E api k (hostByNamePath g n)") (auto simp: GetHostByName_def split: sum.splits)

lemma GetHostMetric_events:
  "fst (GetHostMetric E api k g h m gr p)
     = [HttpGet (api_hostname api @ ''/api/public/v1.0'' @ hostMetricPath g h m gr p)]"
  using doGet_events [of E api k "hostMetricPath g h m gr p"]
  by (cases "doGet E api k (hostMetricPath g h m gr p)") (auto simp: GetHostMetric_def split: sum.splits)

lemma GetHostDBMetric_events:
  "fst (GetHostDBMetric E api k g h m d gr p)
     = [HttpGet (api_hostname api @ ''/api/public/v1.0'' @ hostDBMetricPath g h m d gr p)]"
  using doGet_events [of E api k "hostDBMetricPath g h m d gr p"]
  by (cases "doGet E api k (hostDBMetricPath g h m d gr p)")
     (auto simp: GetHostDBMetric_def split: sum.splits)

lemma fetchMetric_events:
  assumes "fetchMetric E F api host = (evs, r)"
  shows "\<exists>uri. evs = [HttpGet uri]"
proof (cases "dbName F = []")
  case True
  with assms have "evs = fst (GetHostMetric E api 1 (groupId F) (Id_host host) (metricName F)
                                (granularity F) (period F))"
    by (simp add: fetchMetric_def)
  then show ?thesis by (simp add: GetHostMetric_events)
next
  case False
  with assms have "evs = fst (GetHostDBMetric E api 1 (groupId F) (Id_host host) (metricName F)
                                (dbName F) (granularity F) (period F))"
    by (simp add: fetchMetric_def)
  then show ?thesis by (simp add: GetHostDBMetric_events)
qed

lemma fetchMetric_silent:
  assumes "fetchMetric E F api host = (evs, r)"
  shows "results evs = [] \<and> perfdata evs = [] \<and> parsed evs = [] \<and> stdout evs = []"
  using fetchMetric_events [OF assms] by auto

subsection \<open>Unfolding the concrete environment\<close>

lemmas sample_defs =
  sampleEnv_def sampleFlags_def sampleAPI_def sampleHost_def sampleMetric_def
  sampleDecodeHost_def sampleDecodeMetric_def sampleJsonKind_def sampleStoreObject_def
  overflowBody_def sampleParseRange_def
  sampleCheck_def inRange_def hostBody_def metricBody_def emptyMetricBody_def errorBody_def
  quoted_def serverDefault_def timeoutDefault_def maxAgeDefault_def granularityDefault_def
  periodDefault_def

lemmas api_defs =
  NewMMSAPI_def doGet_def unMarshalJSON_def unmarshalMap_def handleError_def GetHostByName_def
  GetHostMetric_def
  GetHostDBMetric_def hostByNamePath_def hostMetricPath_def hostDBMetricPath_def fetchMetric_def

lemma okEnv_simps:
  "clock (okEnv now) = now"
  "ParseRange (okEnv now) = sampleParseRange"
  "RangeCheck (okEnv now) = sampleCheck"
  "Sprintf0 (okEnv now) = (\<lambda>format. format)"
  "ToStringLastDataPoint (okEnv now) = (\<lambda>m. ''last data point'')"
  "fmtFloat (okEnv now) = (\<lambda>x. itoa (go_int x))"
  by (simp_all add: okEnv_def sampleEnv_def)

lemma okEnv_fetchMetric:
  "fetchMetric (okEnv now) (sampleFlags ''OPCOUNTERS_CMD'' [] w c) sampleAPI sampleHost
     = ([HttpGet ''https://mms.mongodb.com/api/public/v1.0/groups/g1/hosts/h1/metrics/OPCOUNTERS_CMD?granularity=MINUTE&period=PT1H''],
        Inr sampleMetric)"
  by (simp add: okEnv_def api_defs sample_defs)

lemma sampleMetric_simps:
  "DataPoints sampleMetric \<noteq> []"
  "lastValue sampleMetric = 42"
  "Timestamp (last (DataPoints sampleMetric)) = 0"
  by (simp_all add: sampleMetric_def)

lemma sampleFlags_simps:
  "metricName (sampleFlags m d w c) = m"
  "dbName (sampleFlags m d w c) = d"
  "warning (sampleFlags m d w c) = w"
  "critical (sampleFlags m d w c) = c"
  "maxAge (sampleFlags m d w c) = 360"
  by (simp_all add: sampleFlags_def maxAgeDefault_def)

lemma sampleParseRange_simps:
  "sampleParseRange ''0:300'' = Inr \<lparr>Start = Some 0, End = Some 300, AlertOnInside = False\<rparr>"
  "sampleParseRange ''0:200'' = Inr \<lparr>Start = Some 0, End = Some 200, AlertOnInside = False\<rparr>"
  "sampleParseRange ''50:'' = Inr \<lparr>Start = Some 50, End = None, AlertOnInside = False\<rparr>"
  "sampleParseRange ''~:'' = Inr \<lparr>Start = None, End = None, AlertOnInside = False\<rparr>"
  "sampleParseRange ''bogus'' = Inl ''cannot parse range bogus''"
  by (simp_all add: sampleParseRange_def)

lemma age_1000: "go_int (Seconds (Since 1000000000000 0)) = 1000"
  by (simp add: Since_def Seconds_def go_int_def maxDuration_def minDuration_def)

lemma age_100: "go_int (Seconds (Since 100000000000 0)) = 100"
  by (simp add: Since_def Seconds_def go_int_def maxDuration_def minDuration_def)

lemma age_500: "Seconds (Since 500000000000 0) = 500"
  by (simp add: Since_def Seconds_def maxDuration_def minDuration_def)

lemma itoa_1000: "itoa 1000 = ''1000''"
  by (simp add: itoa_def itoa_nat.simps digit_char_def)

lemma itoa_500: "itoa (go_int 500) = ''500''"
  by (simp add: go_int_def itoa_def itoa_nat.simps digit_char_def)

subsection \<open>The two checks, unfolded\<close>

lemma doHostCheck_unfold:
  "doHostCheck E F host
     = ParseRangeCall (critical F) #
       (case ParseRange E (critical F) of
          Inl err \<Rightarrow> [AddResult UNKNOWN (''Error parsing critical range. Error: '' @ err)]
        | Inr critRange \<Rightarrow>
            if RangeCheck E critRange (hostAge E host)
            then [AddResult CRITICAL (Sprintf0 E (lastPingMessage E (Since (clock E) (LastPing host))))]
            else
              ParseRangeCall (warning F) #
              (case ParseRange E (warning F) of
                 Inl err \<Rightarrow> [AddResult UNKNOWN (''Error parsing warning range. Error: '' @ err)]
               | Inr warnRange \<Rightarrow>
                   if RangeCheck E warnRange (hostAge E host)
                   then [AddResult WARNING (Sprintf0 E (lastPingMessage E (Since (clock E) (LastPing host))))]
                   else [AddResult OK (Sprintf0 E (lastPingMessage E (Since (clock E) (LastPing host))))]))"
  by (simp add: doHostCheck_def Let_def)

lemma evalMetric_stale:
  assumes "DataPoints metric \<noteq> []" and "dataAge E metric > maxAge F"
  shows "evalMetric E F metric
           = [AddResult CRITICAL (''Last data point for '' @ metricName F @ '' is ''
                @ itoa (dataAge E metric) @ '' seconds old.'')]"
  using assms by (simp add: evalMetric_def Let_def last_conv_nth)

lemma evalMetric_fresh:
  assumes "DataPoints metric \<noteq> []" and "dataAge E metric \<le> maxAge F"
  shows "evalMetric E F metric
           = AddPerfDatum (metricName F) [] (lastValue metric) #
             ParseRangeCall (critical F) #
             (case ParseRange E (critical F) of
                Inl err \<Rightarrow> [AddResult UNKNOWN (''Error parsing critical range. Error: '' @ err)]
              | Inr critRange \<Rightarrow>
                  if RangeCheck E critRange (lastValue metric)
                  then [AddResult CRITICAL (Sprintf0 E (ToStringLastDataPoint E metric))]
                  else
                    ParseRangeCall (warning F) #
                    (case ParseRange E (warning F) of
                       Inl err \<Rightarrow> [AddResult UNKNOWN (''Error parsing warning range. Error: '' @ err)]
                     | Inr warnRange \<Rightarrow>
                         if RangeCheck E warnRange (lastValue metric)
                         then [AddResult WARNING (Sprintf0 E (ToStringLastDataPoint E metric))]
                         else [AddResult OK (Sprintf0 E (ToStringLastDataPoint E metric))]))"
  using assms by (simp add: evalMetric_def Let_def last_conv_nth split: sum.splits)

lemma doMetricCheck_fetched:
  assumes "fetchMetric E F api host = (evs, Inr metric)"
  shows "doMetricCheck E F api host = evs @ evalMetric E F metric"
  using assms by (simp add: doMetricCheck_def)

lemma doMetricCheck_projections:
  assumes "fetchMetric E F api host = (evs, Inr metric)"
  shows "results (doMetricCheck E F api host) = results (evalMetric E F metric)"
    and "perfdata (doMetricCheck E F api host) = perfdata (evalMetric E F metric)"
    and "parsed (doMetricCheck E F api host) = parsed (evalMetric E F metric)"
  using fetchMetric_silent [OF assms]
  by (simp_all add: doMetricCheck_fetched [OF assms] trace_append)

subsection \<open>Missing group or host\<close>

text \<open>
  Claim C8. If the group-id flag or the hostname flag is left empty, the program prints
  the usage text to standard output and exits with process exit code 2: its trace is the
  writes of \<open>flag.Usage\<close> to standard output followed by \<open>os.Exit(2)\<close>, with no API
  request and no result added to the check.
\<close>

theorem missing_group_or_host_prints_usage:
  assumes "hostname F = [] \<or> groupId F = []"
  shows "main E F = Usage @ [Exit 2]
       \<and> main E F = map Stdout (stdout (main E F)) @ [Exit 2]
       \<and> stdout (main E F) \<noteq> []
       \<and> requests (main E F) = []
       \<and> results (main E F) = []"
proof -
  have m: "main E F = Usage @ [Exit 2]"
    using assms by (auto simp: main_def)
  have u: "Usage = map Stdout (stdout Usage)"
    by (simp add: Usage_def)
  have s: "stdout Usage \<noteq> []"
    by (simp add: Usage_def)
  have r: "requests Usage = []" "results Usage = []"
    by (simp_all add: Usage_def)
  show ?thesis using u s r unfolding m
    by (simp add: trace_append)
qed

theorem missing_group_or_host_prints_usage_witness:
  "hostname ((sampleFlags [] [] ''~:'' ''~:'')\<lparr>hostname := []\<rparr>) = []
   \<and> main (sampleEnv (GetFailed ''unused'') (GetFailed ''unused'') 0)
          ((sampleFlags [] [] ''~:'' ''~:'')\<lparr>hostname := []\<rparr>) = Usage @ [Exit 2]
   \<and> groupId ((sampleFlags ''OPCOUNTERS_CMD'' [] ''~:'' ''~:'')\<lparr>groupId := []\<rparr>) = []
   \<and> results (main (sampleEnv (GetFailed ''unused'') (GetFailed ''unused'') 0)
          ((sampleFlags ''OPCOUNTERS_CMD'' [] ''~:'' ''~:'')\<lparr>groupId := []\<rparr>)) = []"
proof -
  have h1: "hostname ((sampleFlags [] [] ''~:'' ''~:'')\<lparr>hostname := []\<rparr>) = []" by simp
  have h2: "groupId ((sampleFlags ''OPCOUNTERS_CMD'' [] ''~:'' ''~:'')\<lparr>groupId := []\<rparr>) = []"
    by simp
  show ?thesis
    using h1 h2
      missing_group_or_host_prints_usage
        [OF disjI1, OF h1, where E = "sampleEnv (GetFailed ''unused'') (GetFailed ''unused'') 0"]
      missing_group_or_host_prints_usage
        [OF disjI2, OF h2, where E = "sampleEnv (GetFailed ''unused'') (GetFailed ''unused'') 0"]
    by blast
qed

subsection \<open>A metric without data points\<close>

text \<open>
  Claim C4. In metric mode, whenever the fetch succeeds but returns zero data points, the
  result is UNKNOWN and its message mentions the metric name; nothing else happens after
  the fetch: no performance datum is attached and no threshold range is parsed.
\<close>

theorem no_data_points_is_unknown:
  assumes "fetchMetric E F api host = (evs, Inr metric)"
      and "DataPoints metric = []"
  shows "doMetricCheck E F api host
           = evs @ [AddResult UNKNOWN (''No data points found for '' @ metricName F)]
       \<and> results (doMetricCheck E F api host)
           = [(UNKNOWN, ''No data points found for '' @ metricName F)]
       \<and> perfdata (doMetricCheck E F api host) = []
       \<and> parsed (doMetricCheck E F api host) = []"
proof -
  have d: "doMetricCheck E F api host
             = evs @ [AddResult UNKNOWN (''No data points found for '' @ metricName F)]"
    using assms by (simp add: doMetricCheck_def evalMetric_def)
  show ?thesis
    using fetchMetric_silent [OF assms(1)] unfolding d by (simp add: trace_append)
qed

theorem no_data_points_is_unknown_witness:
  "fetchMetric (sampleEnv (Response 200 hostBody) (Response 200 emptyMetricBody) 0)
       (sampleFlags ''OPCOUNTERS_CMD'' [] ''0:200'' ''0:300'') sampleAPI sampleHost
     = ([HttpGet ''https://mms.mongodb.com/api/public/v1.0/groups/g1/hosts/h1/metrics/OPCOUNTERS_CMD?granularity=MINUTE&period=PT1H''],
        Inr \<lparr>DataPoints = []\<rparr>)
   \<and> results (doMetricCheck (sampleEnv (Response 200 hostBody) (Response 200 emptyMetricBody) 0)
       (sampleFlags ''OPCOUNTERS_CMD'' [] ''0:200'' ''0:300'') sampleAPI sampleHost)
     = [(UNKNOWN, ''No data points found for OPCOUNTERS_CMD'')]"
proof -
  have f: "fetchMetric (sampleEnv (Response 200 hostBody) (Response 200 emptyMetricBody) 0)
       (sampleFlags ''OPCOUNTERS_CMD'' [] ''0:200'' ''0:300'') sampleAPI sampleHost
     = ([HttpGet ''https://mms.mongodb.com/api/public/v1.0/groups/g1/hosts/h1/metrics/OPCOUNTERS_CMD?granularity=MINUTE&period=PT1H''],
        Inr \<lparr>DataPoints = []\<rparr>)"
    by (simp add: api_defs sample_defs)
  have m: "metricName (sampleFlags ''OPCOUNTERS_CMD'' [] ''0:200'' ''0:300'') = ''OPCOUNTERS_CMD''"
    by (simp add: sampleFlags_def)
  show ?thesis
    using f no_data_points_is_unknown [OF f] by (simp add: m)
qed

subsection \<open>Order of the threshold checks\<close>

text \<open>
  Claim C1. In liveness mode and in metric mode the critical range is tested before the
  warning range. When both threshold texts parse, the single result has the severity
  CRITICAL if the value violates the critical range (so also when it violates both
  ranges, and then never WARNING), WARNING if it violates the warning range only, and OK
  if it violates neither. In metric mode this is the outcome whenever the thresholds are
  evaluated at all, that is for a fetched metric with a fresh last data point.
\<close>

theorem critical_checked_before_warning:
  assumes "ParseRange E (critical F) = Inr critRange"
      and "ParseRange E (warning F) = Inr warnRange"
  shows "results (doHostCheck E F host)
           = [(if RangeCheck E critRange (hostAge E host) then CRITICAL
               else if RangeCheck E warnRange (hostAge E host) then WARNING
               else OK,
               Sprintf0 E (lastPingMessage E (Since (clock E) (LastPing host))))]
       \<and> (fetchMetric E F api host = (evs, Inr metric) \<and> DataPoints metric \<noteq> []
            \<and> dataAge E metric \<le> maxAge F \<longrightarrow>
          results (doMetricCheck E F api host)
            = [(if RangeCheck E critRange (lastValue metric) then CRITICAL
                else if RangeCheck E warnRange (lastValue metric) then WARNING
                else OK,
                Sprintf0 E (ToStringLastDataPoint E metric))])"
proof -
  have host: "results (doHostCheck E F host)
          = [(if RangeCheck E critRange (hostAge E host) then CRITICAL
              else if RangeCheck E warnRange (hostAge E host) then WARNING else OK,
              Sprintf0 E (lastPingMessage E (Since (clock E) (LastPing host))))]"
    using assms by (simp add: doHostCheck_unfold)
  have metric: "results (doMetricCheck E F api host)
          = [(if RangeCheck E critRange (lastValue metric) then CRITICAL
              else if RangeCheck E warnRange (lastValue metric) then WARNING else OK,
              Sprintf0 E (ToStringLastDataPoint E metric))]"
    if "fetchMetric E F api host = (evs, Inr metric)" "DataPoints metric \<noteq> []"
       "dataAge E metric \<le> maxAge F"
    using assms by (simp add: doMetricCheck_projections [OF that(1)] evalMetric_fresh [OF that(2,3)])
  show ?thesis
    using host metric by blast
qed

theorem critical_checked_before_warning_witness:
  "ParseRange (okEnv 500000000000) (critical (sampleFlags [] [] ''0:200'' ''0:300''))
     = Inr \<lparr>Start = Some 0, End = Some 300, AlertOnInside = False\<rparr>
   \<and> ParseRange (okEnv 500000000000) (warning (sampleFlags [] [] ''0:200'' ''0:300''))
     = Inr \<lparr>Start = Some 0, End = Some 200, AlertOnInside = False\<rparr>
   \<and> results (doHostCheck (okEnv 500000000000) (sampleFlags [] [] ''0:200'' ''0:300'') sampleHost)
     = [(CRITICAL, ''Last ping was 500 seconds ago'')]
   \<and> ParseRange (okEnv 100000000000) (critical (sampleFlags ''OPCOUNTERS_CMD'' [] ''50:'' ''50:''))
     = Inr \<lparr>Start = Some 50, End = None, AlertOnInside = False\<rparr>
   \<and> ParseRange (okEnv 100000000000) (warning (sampleFlags ''OPCOUNTERS_CMD'' [] ''50:'' ''50:''))
     = Inr \<lparr>Start = Some 50, End = None, AlertOnInside = False\<rparr>
   \<and> fetchMetric (okEnv 100000000000) (sampleFlags ''OPCOUNTERS_CMD'' [] ''50:'' ''50:'') sampleAPI sampleHost
     = ([HttpGet ''https://mms.mongodb.com/api/public/v1.0/groups/g1/hosts/h1/metrics/OPCOUNTERS_CMD?granularity=MINUTE&period=PT1H''],
        Inr sampleMetric)
   \<and> DataPoints sampleMetric \<noteq> []
   \<and> dataAge (okEnv 100000000000) sampleMetric \<le> maxAge (sampleFlags ''OPCOUNTERS_CMD'' [] ''50:'' ''50:'')
   \<and> results (doMetricCheck (okEnv 100000000000) (sampleFlags ''OPCOUNTERS_CMD'' [] ''50:'' ''50:'')
                 sampleAPI sampleHost)
     = [(CRITICAL, ''last data point'')]"
proof -
  have c1: "ParseRange (okEnv 500000000000) (critical (sampleFlags [] [] ''0:200'' ''0:300''))
     = Inr \<lparr>Start = Some 0, End = Some 300, AlertOnInside = False\<rparr>"
    by (simp add: okEnv_simps sampleFlags_simps sampleParseRange_simps)
  have w1: "ParseRange (okEnv 500000000000) (warning (sampleFlags [] [] ''0:200'' ''0:300''))
     = Inr \<lparr>Start = Some 0, End = Some 200, AlertOnInside = False\<rparr>"
    by (simp add: okEnv_simps sampleFlags_simps sampleParseRange_simps)
  have c2: "ParseRange (okEnv 100000000000) (critical (sampleFlags ''OPCOUNTERS_CMD'' [] ''50:'' ''50:''))
     = Inr \<lparr>Start = Some 50, End = None, AlertOnInside = False\<rparr>"
    by (simp add: okEnv_simps sampleFlags_simps sampleParseRange_simps)
  have w2: "ParseRange (okEnv 100000000000) (warning (sampleFlags ''OPCOUNTERS_CMD'' [] ''50:'' ''50:''))
     = Inr \<lparr>Start = Some 50, End = None, AlertOnInside = False\<rparr>"
    by (simp add: okEnv_simps sampleFlags_simps sampleParseRange_simps)
  have a: "dataAge (okEnv 100000000000) sampleMetric
             \<le> maxAge (sampleFlags ''OPCOUNTERS_CMD'' [] ''50:'' ''50:'')"
    by (simp add: okEnv_simps sampleMetric_simps age_100 sampleFlags_simps)
  have r1: "results (doHostCheck (okEnv 500000000000) (sampleFlags [] [] ''0:200'' ''0:300'') sampleHost)
     = [(CRITICAL, ''Last ping was 500 seconds ago'')]"
    using critical_checked_before_warning [OF c1 w1, of sampleHost, THEN conjunct1]
    by (simp add: okEnv_simps sampleHost_def age_500 itoa_500 lastPingMessage_def
          sampleCheck_def inRange_def)
  have r2: "results (doMetricCheck (okEnv 100000000000) (sampleFlags ''OPCOUNTERS_CMD'' [] ''50:'' ''50:'')
                 sampleAPI sampleHost)
     = [(CRITICAL, ''last data point'')]"
    using critical_checked_before_warning [OF c2 w2, THEN conjunct2, rule_format,
        OF conjI, OF okEnv_fetchMetric conjI, OF sampleMetric_simps(1) a]
    by (simp add: okEnv_simps sampleMetric_simps sampleCheck_def inRange_def)
  show ?thesis
    using c1 w1 c2 w2 a r1 r2 okEnv_fetchMetric sampleMetric_simps(1) by blast
qed

text \<open>
  Claim C9. In both modes the warning range text is parsed only after the critical range
  has been parsed and its check has found no violation: the texts handed to
  \<open>ParseRange\<close> are the critical one alone, or the critical one followed by the
  warning one in exactly that case. So for a value that violates the critical range, a
  malformed warning range gives a CRITICAL result, not an UNKNOWN parse error.
\<close>

theorem warning_parsed_only_after_critical_passes:
  "parsed (doHostCheck E F host)
     = (case ParseRange E (critical F) of
          Inl err \<Rightarrow> [critical F]
        | Inr critRange \<Rightarrow>
            if RangeCheck E critRange (hostAge E host) then [critical F]
            else [critical F, warning F])
   \<and> (\<forall>critRange err.
         ParseRange E (critical F) = Inr critRange
         \<and> RangeCheck E critRange (hostAge E host)
         \<and> ParseRange E (warning F) = Inl err \<longrightarrow>
         results (doHostCheck E F host)
           = [(CRITICAL, Sprintf0 E (lastPingMessage E (Since (clock E) (LastPing host))))])
   \<and> (fetchMetric E F api host = (evs, Inr metric) \<and> DataPoints metric \<noteq> []
        \<and> dataAge E metric \<le> maxAge F \<longrightarrow>
        parsed (doMetricCheck E F api host)
          = (case ParseRange E (critical F) of
               Inl err \<Rightarrow> [critical F]
             | Inr critRange \<Rightarrow>
                 if RangeCheck E critRange (lastValue metric) then [critical F]
                 else [critical F, warning F])
        \<and> (\<forall>critRange err.
              ParseRange E (critical F) = Inr critRange
              \<and> RangeCheck E critRange (lastValue metric)
              \<and> ParseRange E (warning F) = Inl err \<longrightarrow>
              results (doMetricCheck E F api host)
                = [(CRITICAL, Sprintf0 E (ToStringLastDataPoint E metric))]))"
proof (intro conjI impI)
  show "parsed (doHostCheck E F host)
     = (case ParseRange E (critical F) of
          Inl err \<Rightarrow> [critical F]
        | Inr critRange \<Rightarrow>
            if RangeCheck E critRange (hostAge E host) then [critical F]
            else [critical F, warning F])"
    by (simp add: doHostCheck_unfold split: sum.splits)
  show "\<forall>critRange err.
         ParseRange E (critical F) = Inr critRange
         \<and> RangeCheck E critRange (hostAge E host)
         \<and> ParseRange E (warning F) = Inl err \<longrightarrow>
         results (doHostCheck E F host)
           = [(CRITICAL, Sprintf0 E (lastPingMessage E (Since (clock E) (LastPing host))))]"
    by (simp add: doHostCheck_unfold)
next
  assume a: "fetchMetric E F api host = (evs, Inr metric) \<and> DataPoints metric \<noteq> []
        \<and> dataAge E metric \<le> maxAge F"
  then have f: "fetchMetric E F api host = (evs, Inr metric)"
    and ev: "evalMetric E F metric
           = AddPerfDatum (metricName F) [] (lastValue metric) #
             ParseRangeCall (critical F) #
             (case ParseRange E (critical F) of
                Inl err \<Rightarrow> [AddResult UNKNOWN (''Error parsing critical range. Error: '' @ err)]
              | Inr critRange \<Rightarrow>
                  if RangeCheck E critRange (lastValue metric)
                  then [AddResult CRITICAL (Sprintf0 E (ToStringLastDataPoint E metric))]
                  else
                    ParseRangeCall (warning F) #
                    (case ParseRange E (warning F) of
                       Inl err \<Rightarrow> [AddResult UNKNOWN (''Error parsing warning range. Error: '' @ err)]
                     | Inr warnRange \<Rightarrow>
                         if RangeCheck E warnRange (lastValue metric)
                         then [AddResult WARNING (Sprintf0 E (ToStringLastDataPoint E metric))]
                         else [AddResult OK (Sprintf0 E (ToStringLastDataPoint E metric))]))"
    using evalMetric_fresh by blast+
  show "parsed (doMetricCheck E F api host)
          = (case ParseRange E (critical F) of
               Inl err \<Rightarrow> [critical F]
             | Inr critRange \<Rightarrow>
                 if RangeCheck E critRange (lastValue metric) then [critical F]
                 else [critical F, warning F])"
    by (simp add: doMetricCheck_projections [OF f] ev split: sum.splits)
  show "\<forall>critRange err.
              ParseRange E (critical F) = Inr critRange
              \<and> RangeCheck E critRange (lastValue metric)
              \<and> ParseRange E (warning F) = Inl err \<longrightarrow>
              results (doMetricCheck E F api host)
                = [(CRITICAL, Sprintf0 E (ToStringLastDataPoint E metric))]"
    by (simp add: doMetricCheck_projections [OF f] ev)
qed

theorem warning_parsed_only_after_critical_passes_witness:
  "ParseRange (okEnv 500000000000) (critical (sampleFlags [] [] ''bogus'' ''0:300''))
     = Inr \<lparr>Start = Some 0, End = Some 300, AlertOnInside = False\<rparr>
   \<and> RangeCheck (okEnv 500000000000) \<lparr>Start = Some 0, End = Some 300, AlertOnInside = False\<rparr>
         (hostAge (okEnv 500000000000) sampleHost)
   \<and> ParseRange (okEnv 500000000000) (warning (sampleFlags [] [] ''bogus'' ''0:300''))
     = Inl ''cannot parse range bogus''
   \<and> results (doHostCheck (okEnv 500000000000) (sampleFlags [] [] ''bogus'' ''0:300'') sampleHost)
     = [(CRITICAL, ''Last ping was 500 seconds ago'')]
   \<and> parsed (doHostCheck (okEnv 500000000000) (sampleFlags [] [] ''bogus'' ''0:300'') sampleHost)
     = [''0:300'']
   \<and> fetchMetric (okEnv 100000000000) (sampleFlags ''OPCOUNTERS_CMD'' [] ''bogus'' ''50:'') sampleAPI sampleHost
     = ([HttpGet ''https://mms.mongodb.com/api/public/v1.0/groups/g1/hosts/h1/metrics/OPCOUNTERS_CMD?granularity=MINUTE&period=PT1H''],
        Inr sampleMetric)
   \<and> DataPoints sampleMetric \<noteq> []
   \<and> dataAge (okEnv 100000000000) sampleMetric \<le> maxAge (sampleFlags ''OPCOUNTERS_CMD'' [] ''bogus'' ''50:'')
   \<and> ParseRange (okEnv 100000000000) (critical (sampleFlags ''OPCOUNTERS_CMD'' [] ''bogus'' ''50:''))
     = Inr \<lparr>Start = Some 50, End = None, AlertOnInside = False\<rparr>
   \<and> RangeCheck (okEnv 100000000000) \<lparr>Start = Some 50, End = None, AlertOnInside = False\<rparr>
         (lastValue sampleMetric)
   \<and> ParseRange (okEnv 100000000000) (warning (sampleFlags ''OPCOUNTERS_CMD'' [] ''bogus'' ''50:''))
     = Inl ''cannot parse range bogus''
   \<and> results (doMetricCheck (okEnv 100000000000) (sampleFlags ''OPCOUNTERS_CMD'' [] ''bogus'' ''50:'')
                 sampleAPI sampleHost)
     = [(CRITICAL, ''last data point'')]
   \<and> parsed (doMetricCheck (okEnv 100000000000) (sampleFlags ''OPCOUNTERS_CMD'' [] ''bogus'' ''50:'')
                 sampleAPI sampleHost)
     = [''50:'']"
proof -
  note thm1 = warning_parsed_only_after_critical_passes
                [where E = "okEnv 500000000000" and F = "sampleFlags [] [] ''bogus'' ''0:300''"
                   and host = sampleHost]
  note thm2 = warning_parsed_only_after_critical_passes
                [where E = "okEnv 100000000000"
                   and F = "sampleFlags ''OPCOUNTERS_CMD'' [] ''bogus'' ''50:''"
                   and host = sampleHost and api = sampleAPI and metric = sampleMetric
                   and evs = "[HttpGet ''https://mms.mongodb.com/api/public/v1.0/groups/g1/hosts/h1/metrics/OPCOUNTERS_CMD?granularity=MINUTE&period=PT1H'']"]
  have c1: "ParseRange (okEnv 500000000000) (critical (sampleFlags [] [] ''bogus'' ''0:300''))
     = Inr \<lparr>Start = Some 0, End = Some 300, AlertOnInside = False\<rparr>"
    by (simp add: okEnv_simps sampleFlags_simps sampleParseRange_simps)
  have k1: "RangeCheck (okEnv 500000000000) \<lparr>Start = Some 0, End = Some 300, AlertOnInside = False\<rparr>
         (hostAge (okEnv 500000000000) sampleHost)"
    by (simp add: okEnv_simps sampleHost_def age_500 sampleCheck_def inRange_def)
  have w1: "ParseRange (okEnv 500000000000) (warning (sampleFlags [] [] ''bogus'' ''0:300''))
     = Inl ''cannot parse range bogus''"
    by (simp add: okEnv_simps sampleFlags_simps sampleParseRange_simps)
  have r1: "results (doHostCheck (okEnv 500000000000) (sampleFlags [] [] ''bogus'' ''0:300'') sampleHost)
     = [(CRITICAL, ''Last ping was 500 seconds ago'')]"
    using thm1 [THEN conjunct2, THEN conjunct1, rule_format, OF conjI, OF c1 conjI, OF k1 w1]
    by (simp add: okEnv_simps sampleHost_def age_500 itoa_500 lastPingMessage_def)
  have p1: "parsed (doHostCheck (okEnv 500000000000) (sampleFlags [] [] ''bogus'' ''0:300'') sampleHost)
     = [''0:300'']"
    using thm1 [THEN conjunct1] k1
    by (simp add: okEnv_simps sampleFlags_simps sampleParseRange_simps)
  have a: "dataAge (okEnv 100000000000) sampleMetric
             \<le> maxAge (sampleFlags ''OPCOUNTERS_CMD'' [] ''bogus'' ''50:'')"
    by (simp add: okEnv_simps sampleMetric_simps age_100 sampleFlags_simps)
  have c2: "ParseRange (okEnv 100000000000) (critical (sampleFlags ''OPCOUNTERS_CMD'' [] ''bogus'' ''50:''))
     = Inr \<lparr>Start = Some 50, End = None, AlertOnInside = False\<rparr>"
    by (simp add: okEnv_simps sampleFlags_simps sampleParseRange_simps)
  have k2: "RangeCheck (okEnv 100000000000) \<lparr>Start = Some 50, End = None, AlertOnInside = False\<rparr>
         (lastValue sampleMetric)"
    by (simp add: okEnv_simps sampleMetric_simps sampleCheck_def inRange_def)
  have w2: "ParseRange (okEnv 100000000000) (warning (sampleFlags ''OPCOUNTERS_CMD'' [] ''bogus'' ''50:''))
     = Inl ''cannot parse range bogus''"
    by (simp add: okEnv_simps sampleFlags_simps sampleParseRange_simps)
  note m = thm2 [THEN conjunct2, THEN conjunct2, rule_format,
                 OF conjI, OF okEnv_fetchMetric conjI, OF sampleMetric_simps(1) a]
  have r2: "results (doMetricCheck (okEnv 100000000000) (sampleFlags ''OPCOUNTERS_CMD'' [] ''bogus'' ''50:'')
                 sampleAPI sampleHost)
     = [(CRITICAL, ''last data point'')]"
    using m [THEN conjunct2, rule_format, OF conjI, OF c2 conjI, OF k2 w2]
    by (simp add: okEnv_simps)
  have p2: "parsed (doMetricCheck (okEnv 100000000000) (sampleFlags ''OPCOUNTERS_CMD'' [] ''bogus'' ''50:'')
                 sampleAPI sampleHost)
     = [''50:'']"
    using m [THEN conjunct1] k2
    by (simp add: okEnv_simps sampleFlags_simps sampleParseRange_simps)
  show ?thesis
    using c1 k1 w1 r1 p1 okEnv_fetchMetric sampleMetric_simps(1) a c2 k2 w2 r2 p2 by blast
qed

subsection \<open>Stale and fresh data points\<close>

text \<open>
  Claim C2. In metric mode with at least one data point, if the age of the last data
  point (clock reading minus its timestamp, in seconds, truncated to an integer) is
  strictly greater than \<open>maxAge\<close>, the only result is CRITICAL with a message giving
  the metric name and the truncated age, whatever the value of the data point and the
  configured ranges are; no performance datum is attached and no range is parsed.
\<close>

theorem stale_metric_is_critical:
  assumes "fetchMetric E F api host = (evs, Inr metric)"
      and "DataPoints metric \<noteq> []"
      and "dataAge E metric > maxAge F"
  shows "doMetricCheck E F api host
           = evs @ [AddResult CRITICAL (''Last data point for '' @ metricName F @ '' is ''
                      @ itoa (dataAge E metric) @ '' seconds old.'')]
       \<and> results (doMetricCheck E F api host)
           = [(CRITICAL, ''Last data point for '' @ metricName F @ '' is ''
                      @ itoa (dataAge E metric) @ '' seconds old.'')]
       \<and> perfdata (doMetricCheck E F api host) = []
       \<and> parsed (doMetricCheck E F api host) = []"
proof -
  note ev = evalMetric_stale [OF assms(2,3)]
  have "doMetricCheck E F api host
           = evs @ [AddResult CRITICAL (''Last data point for '' @ metricName F @ '' is ''
                      @ itoa (dataAge E metric) @ '' seconds old.'')]"
    by (simp only: doMetricCheck_fetched [OF assms(1)] ev)
  moreover have "results (doMetricCheck E F api host)
           = [(CRITICAL, ''Last data point for '' @ metricName F @ '' is ''
                      @ itoa (dataAge E metric) @ '' seconds old.'')]"
    by (simp only: doMetricCheck_projections [OF assms(1)] ev results.simps)
  moreover have "perfdata (doMetricCheck E F api host) = []"
    by (simp only: doMetricCheck_projections [OF assms(1)] ev perfdata.simps)
  moreover have "parsed (doMetricCheck E F api host) = []"
    by (simp only: doMetricCheck_projections [OF assms(1)] ev parsed.simps)
  ultimately show ?thesis by blast
qed

theorem stale_metric_is_critical_witness:
  "fetchMetric (okEnv 1000000000000) (sampleFlags ''OPCOUNTERS_CMD'' [] ''~:'' ''~:'') sampleAPI sampleHost
     = ([HttpGet ''https://mms.mongodb.com/api/public/v1.0/groups/g1/hosts/h1/metrics/OPCOUNTERS_CMD?granularity=MINUTE&period=PT1H''],
        Inr sampleMetric)
   \<and> DataPoints sampleMetric \<noteq> []
   \<and> dataAge (okEnv 1000000000000) sampleMetric > maxAge (sampleFlags ''OPCOUNTERS_CMD'' [] ''~:'' ''~:'')
   \<and> results (doMetricCheck (okEnv 1000000000000) (sampleFlags ''OPCOUNTERS_CMD'' [] ''~:'' ''~:'')
                 sampleAPI sampleHost)
       = [(CRITICAL, ''Last data point for OPCOUNTERS_CMD is 1000 seconds old.'')]
   \<and> perfdata (doMetricCheck (okEnv 1000000000000) (sampleFlags ''OPCOUNTERS_CMD'' [] ''~:'' ''~:'')
                 sampleAPI sampleHost) = []"
proof -
  have a: "dataAge (okEnv 1000000000000) sampleMetric = 1000"
    by (simp add: okEnv_simps sampleMetric_simps age_1000)
  have h: "dataAge (okEnv 1000000000000) sampleMetric
             > maxAge (sampleFlags ''OPCOUNTERS_CMD'' [] ''~:'' ''~:'')"
    by (simp add: a sampleFlags_simps)
  show ?thesis
    using okEnv_fetchMetric sampleMetric_simps(1) h
      stale_metric_is_critical [OF okEnv_fetchMetric sampleMetric_simps(1) h]
    by (simp add: a itoa_1000 sampleFlags_simps)
qed

text \<open>
  Claim C5. In metric mode with a fresh last data point exactly one performance datum is
  attached: the metric name, an empty unit and the value of the fetched data point. It is
  attached before any threshold range is parsed: in the trace it follows the request of
  the fetch directly and the parsing of the critical range comes right after it.
\<close>

theorem fresh_metric_attaches_one_datum:
  assumes "fetchMetric E F api host = (evs, Inr metric)"
      and "DataPoints metric \<noteq> []"
      and "dataAge E metric \<le> maxAge F"
  shows "perfdata (doMetricCheck E F api host) = [(metricName F, [], lastValue metric)]
       \<and> (\<exists>rest. doMetricCheck E F api host
                    = evs @ AddPerfDatum (metricName F) [] (lastValue metric) #
                        ParseRangeCall (critical F) # rest)
       \<and> parsed evs = []"
proof -
  note ev = evalMetric_fresh [OF assms(2,3)]
  have "perfdata (evalMetric E F metric) = [(metricName F, [], lastValue metric)]"
    by (simp add: ev split: sum.splits)
  then have "perfdata (doMetricCheck E F api host) = [(metricName F, [], lastValue metric)]"
    by (simp only: doMetricCheck_projections [OF assms(1)])
  moreover have "\<exists>rest. doMetricCheck E F api host
                    = evs @ AddPerfDatum (metricName F) [] (lastValue metric) #
                        ParseRangeCall (critical F) # rest"
    by (simp add: doMetricCheck_fetched [OF assms(1)] ev)
  moreover have "parsed evs = []"
    using fetchMetric_silent [OF assms(1)] by simp
  ultimately show ?thesis by blast
qed

theorem fresh_metric_attaches_one_datum_witness:
  "fetchMetric (okEnv 100000000000) (sampleFlags ''OPCOUNTERS_CMD'' [] ''0:200'' ''0:300'') sampleAPI sampleHost
     = ([HttpGet ''https://mms.mongodb.com/api/public/v1.0/groups/g1/hosts/h1/metrics/OPCOUNTERS_CMD?granularity=MINUTE&period=PT1H''],
        Inr sampleMetric)
   \<and> DataPoints sampleMetric \<noteq> []
   \<and> dataAge (okEnv 100000000000) sampleMetric \<le> maxAge (sampleFlags ''OPCOUNTERS_CMD'' [] ''0:200'' ''0:300'')
   \<and> perfdata (doMetricCheck (okEnv 100000000000) (sampleFlags ''OPCOUNTERS_CMD'' [] ''0:200'' ''0:300'')
                 sampleAPI sampleHost)
       = [(''OPCOUNTERS_CMD'', [], 42)]"
proof -
  have a: "dataAge (okEnv 100000000000) sampleMetric = 100"
    by (simp add: okEnv_simps sampleMetric_simps age_100)
  have h: "dataAge (okEnv 100000000000) sampleMetric
             \<le> maxAge (sampleFlags ''OPCOUNTERS_CMD'' [] ''0:200'' ''0:300'')"
    by (simp add: a sampleFlags_simps)
  show ?thesis
    using okEnv_fetchMetric sampleMetric_simps(1) h
      fresh_metric_attaches_one_datum [OF okEnv_fetchMetric sampleMetric_simps(1) h]
    by (simp add: sampleFlags_simps sampleMetric_simps)
qed

text \<open>
  Claim C10. In metric mode with a fresh last data point and a malformed critical range,
  or a malformed warning range that gets parsed, the performance datum has already been
  attached when the UNKNOWN parse-error result is added: the UNKNOWN outcome carries the
  performance datum.
\<close>

theorem unknown_parse_error_carries_datum:
  assumes "fetchMetric E F api host = (evs, Inr metric)"
      and "DataPoints metric \<noteq> []"
      and "dataAge E metric \<le> maxAge F"
  shows "(\<forall>err. ParseRange E (critical F) = Inl err \<longrightarrow>
            doMetricCheck E F api host
              = evs @ [AddPerfDatum (metricName F) [] (lastValue metric),
                       ParseRangeCall (critical F),
                       AddResult UNKNOWN (''Error parsing critical range. Error: '' @ err)]
          \<and> results (doMetricCheck E F api host)
              = [(UNKNOWN, ''Error parsing critical range. Error: '' @ err)]
          \<and> perfdata (doMetricCheck E F api host) = [(metricName F, [], lastValue metric)])
       \<and> (\<forall>critRange err.
            ParseRange E (critical F) = Inr critRange
            \<and> \<not> RangeCheck E critRange (lastValue metric)
            \<and> ParseRange E (warning F) = Inl err \<longrightarrow>
            doMetricCheck E F api host
              = evs @ [AddPerfDatum (metricName F) [] (lastValue metric),
                       ParseRangeCall (critical F), ParseRangeCall (warning F),
                       AddResult UNKNOWN (''Error parsing warning range. Error: '' @ err)]
          \<and> results (doMetricCheck E F api host)
              = [(UNKNOWN, ''Error parsing warning range. Error: '' @ err)]
          \<and> perfdata (doMetricCheck E F api host) = [(metricName F, [], lastValue metric)])"
proof -
  note ev = evalMetric_fresh [OF assms(2,3)]
  note pr = doMetricCheck_projections [OF assms(1)]
  have tr: "doMetricCheck E F api host = evs @ evalMetric E F metric"
    by (rule doMetricCheck_fetched [OF assms(1)])
  have crit: "evalMetric E F metric
                = [AddPerfDatum (metricName F) [] (lastValue metric),
                   ParseRangeCall (critical F),
                   AddResult UNKNOWN (''Error parsing critical range. Error: '' @ err)]"
    if "ParseRange E (critical F) = Inl err" for err
    using that by (simp add: ev)
  have warn: "evalMetric E F metric
                = [AddPerfDatum (metricName F) [] (lastValue metric),
                   ParseRangeCall (critical F), ParseRangeCall (warning F),
                   AddResult UNKNOWN (''Error parsing warning range. Error: '' @ err)]"
    if "ParseRange E (critical F) = Inr critRange"
       and "\<not> RangeCheck E critRange (lastValue metric)"
       and "ParseRange E (warning F) = Inl err" for critRange err
    using that by (simp add: ev)
  show ?thesis
  proof (intro conjI allI impI)
    fix err assume a: "ParseRange E (critical F) = Inl err"
    show "doMetricCheck E F api host
              = evs @ [AddPerfDatum (metricName F) [] (lastValue metric),
                       ParseRangeCall (critical F),
                       AddResult UNKNOWN (''Error parsing critical range. Error: '' @ err)]"
      by (simp only: tr crit [OF a])
    show "results (doMetricCheck E F api host)
              = [(UNKNOWN, ''Error parsing critical range. Error: '' @ err)]"
      by (simp only: pr crit [OF a] results.simps)
    show "perfdata (doMetricCheck E F api host) = [(metricName F, [], lastValue metric)]"
      by (simp only: pr crit [OF a] perfdata.simps)
  next
    fix critRange err
    assume "ParseRange E (critical F) = Inr critRange
            \<and> \<not> RangeCheck E critRange (lastValue metric)
            \<and> ParseRange E (warning F) = Inl err"
    then have w: "evalMetric E F metric
                = [AddPerfDatum (metricName F) [] (lastValue metric),
                   ParseRangeCall (critical F), ParseRangeCall (warning F),
                   AddResult UNKNOWN (''Error parsing warning range. Error: '' @ err)]"
      using warn by blast
    show "doMetricCheck E F api host
              = evs @ [AddPerfDatum (metricName F) [] (lastValue metric),
                       ParseRangeCall (critical F), ParseRangeCall (warning F),
                       AddResult UNKNOWN (''Error parsing warning range. Error: '' @ err)]"
      by (simp only: tr w)
    show "results (doMetricCheck E F api host)
              = [(UNKNOWN, ''Error parsing warning range. Error: '' @ err)]"
      by (simp only: pr w results.simps)
    show "perfdata (doMetricCheck E F api host) = [(metricName F, [], lastValue metric)]"
      by (simp only: pr w perfdata.simps)
  qed
qed

theorem unknown_parse_error_carries_datum_witness:
  "fetchMetric (okEnv 100000000000) (sampleFlags ''OPCOUNTERS_CMD'' [] ''0:200'' ''bogus'') sampleAPI sampleHost
     = ([HttpGet ''https://mms.mongodb.com/api/public/v1.0/groups/g1/hosts/h1/metrics/OPCOUNTERS_CMD?granularity=MINUTE&period=PT1H''],
        Inr sampleMetric)
   \<and> DataPoints sampleMetric \<noteq> []
   \<and> dataAge (okEnv 100000000000) sampleMetric \<le> maxAge (sampleFlags ''OPCOUNTERS_CMD'' [] ''0:200'' ''bogus'')
   \<and> ParseRange (okEnv 100000000000) (critical (sampleFlags ''OPCOUNTERS_CMD'' [] ''0:200'' ''bogus''))
     = Inl ''cannot parse range bogus''
   \<and> results (doMetricCheck (okEnv 100000000000) (sampleFlags ''OPCOUNTERS_CMD'' [] ''0:200'' ''bogus'')
                 sampleAPI sampleHost)
     = [(UNKNOWN, ''Error parsing critical range. Error: cannot parse range bogus'')]
   \<and> perfdata (doMetricCheck (okEnv 100000000000) (sampleFlags ''OPCOUNTERS_CMD'' [] ''0:200'' ''bogus'')
                 sampleAPI sampleHost)
     = [(''OPCOUNTERS_CMD'', [], 42)]
   \<and> ParseRange (okEnv 100000000000) (critical (sampleFlags ''OPCOUNTERS_CMD'' [] ''bogus'' ''~:''))
     = Inr \<lparr>Start = None, End = None, AlertOnInside = False\<rparr>
   \<and> \<not> RangeCheck (okEnv 100000000000) \<lparr>Start = None, End = None, AlertOnInside = False\<rparr>
         (lastValue sampleMetric)
   \<and> ParseRange (okEnv 100000000000) (warning (sampleFlags ''OPCOUNTERS_CMD'' [] ''bogus'' ''~:''))
     = Inl ''cannot parse range bogus''
   \<and> results (doMetricCheck (okEnv 100000000000) (sampleFlags ''OPCOUNTERS_CMD'' [] ''bogus'' ''~:'')
                 sampleAPI sampleHost)
     = [(UNKNOWN, ''Error parsing warning range. Error: cannot parse range bogus'')]
   \<and> perfdata (doMetricCheck (okEnv 100000000000) (sampleFlags ''OPCOUNTERS_CMD'' [] ''bogus'' ''~:'')
                 sampleAPI sampleHost)
     = [(''OPCOUNTERS_CMD'', [], 42)]"
proof -
  have a: "dataAge (okEnv 100000000000) sampleMetric \<le> maxAge (sampleFlags ''OPCOUNTERS_CMD'' [] w c)"
    for w c
    by (simp add: okEnv_simps sampleMetric_simps age_100 sampleFlags_simps)
  have c1: "ParseRange (okEnv 100000000000) (critical (sampleFlags ''OPCOUNTERS_CMD'' [] ''0:200'' ''bogus''))
     = Inl ''cannot parse range bogus''"
    by (simp add: okEnv_simps sampleFlags_simps sampleParseRange_simps)
  have c2: "ParseRange (okEnv 100000000000) (critical (sampleFlags ''OPCOUNTERS_CMD'' [] ''bogus'' ''~:''))
     = Inr \<lparr>Start = None, End = None, AlertOnInside = False\<rparr>"
    by (simp add: okEnv_simps sampleFlags_simps sampleParseRange_simps)
  have k2: "\<not> RangeCheck (okEnv 100000000000) \<lparr>Start = None, End = None, AlertOnInside = False\<rparr>
         (lastValue sampleMetric)"
    by (simp add: okEnv_simps sampleCheck_def inRange_def)
  have w2: "ParseRange (okEnv 100000000000) (warning (sampleFlags ''OPCOUNTERS_CMD'' [] ''bogus'' ''~:''))
     = Inl ''cannot parse range bogus''"
    by (simp add: okEnv_simps sampleFlags_simps sampleParseRange_simps)
  have r1: "results (doMetricCheck (okEnv 100000000000) (sampleFlags ''OPCOUNTERS_CMD'' [] ''0:200'' ''bogus'')
                 sampleAPI sampleHost)
     = [(UNKNOWN, ''Error parsing critical range. Error: cannot parse range bogus'')]
   \<and> perfdata (doMetricCheck (okEnv 100000000000) (sampleFlags ''OPCOUNTERS_CMD'' [] ''0:200'' ''bogus'')
                 sampleAPI sampleHost)
     = [(''OPCOUNTERS_CMD'', [], 42)]"
    using unknown_parse_error_carries_datum
            [OF okEnv_fetchMetric sampleMetric_simps(1) a, THEN conjunct1, rule_format, OF c1]
    by (simp add: sampleFlags_simps sampleMetric_simps)
  have r2: "results (doMetricCheck (okEnv 100000000000) (sampleFlags ''OPCOUNTERS_CMD'' [] ''bogus'' ''~:'')
                 sampleAPI sampleHost)
     = [(UNKNOWN, ''Error parsing warning range. Error: cannot parse range bogus'')]
   \<and> perfdata (doMetricCheck (okEnv 100000000000) (sampleFlags ''OPCOUNTERS_CMD'' [] ''bogus'' ''~:'')
                 sampleAPI sampleHost)
     = [(''OPCOUNTERS_CMD'', [], 42)]"
    using unknown_parse_error_carries_datum
            [OF okEnv_fetchMetric sampleMetric_simps(1) a, THEN conjunct2, rule_format,
             OF conjI, OF c2 conjI, OF k2 w2]
    by (simp add: sampleFlags_simps sampleMetric_simps)
  show ?thesis
    using okEnv_fetchMetric sampleMetric_simps(1) a c1 c2 k2 w2 r1 r2 by blast
qed

subsection \<open>Percent-encoding of the database name\<close>

lemma in_set_concat_map: "x \<in> set (concat (map f xs)) \<longleftrightarrow> (\<exists>y \<in> set xs. x \<in> set (f y))"
  by auto

lemma upperhex_unreserved_all: "list_all (\<lambda>k. \<not> shouldEscape (upperhex ! k)) [0..<16]"
  by (simp add: upt_rec [of _ "numeral n" for n] upperhex_def shouldEscape_def less_eq_char_def)

lemma upperhex_unreserved: "k < 16 \<Longrightarrow> \<not> shouldEscape (upperhex ! k)"
  using upperhex_unreserved_all by (simp add: list_all_iff)

lemma of_char_div_16: "(of_char c :: nat) div 16 < 16"
  by (rule less_mult_imp_div_less) simp

lemma QueryEscape_byte_chars:
  assumes "x \<in> set (QueryEscape_byte c)"
  shows "x = CHR ''%'' \<or> x = CHR ''+'' \<or> \<not> shouldEscape x"
proof (cases "shouldEscape c")
  case False
  with assms show ?thesis
    by (simp add: QueryEscape_byte_def)
next
  case True
  have m: "(of_char c :: nat) mod 16 < 16" by simp
  show ?thesis
  proof (cases "c = CHR '' ''")
    case True
    with assms \<open>shouldEscape c\<close> show ?thesis by (simp add: QueryEscape_byte_def)
  next
    case False
    with assms \<open>shouldEscape c\<close>
    have "x = CHR ''%'' \<or> x = upperhex ! (of_char c div 16) \<or> x = upperhex ! (of_char c mod 16)"
      by (simp add: QueryEscape_byte_def)
    then show ?thesis
      using upperhex_unreserved [OF of_char_div_16 [of c]] upperhex_unreserved [OF m] by blast
  qed
qed

lemma digits_unreserved: "\<not> shouldEscape CHR ''2''" "\<not> shouldEscape CHR ''0''"
  by (simp_all add: shouldEscape_def less_eq_char_def)

lemma escape_chars:
  assumes "x \<in> set (escape s)"
  shows "x = CHR ''%'' \<or> \<not> shouldEscape x"
proof -
  from assms obtain y where y: "y \<in> set (QueryEscape s)"
    and x: "x \<in> set (if y = CHR ''+'' then ''%20'' else [y])"
    by (simp only: escape_def Replace_plus_def in_set_concat_map) blast
  from y obtain c where c: "y \<in> set (QueryEscape_byte c)"
    by (simp only: QueryEscape_def in_set_concat_map) blast
  show ?thesis
  proof (cases "y = CHR ''+''")
    case True
    with x have "x = CHR ''%'' \<or> x = CHR ''2'' \<or> x = CHR ''0''" by simp
    then show ?thesis using digits_unreserved by blast
  next
    case False
    with x have "x = y" by simp
    then show ?thesis using QueryEscape_byte_chars [OF c] False by blast
  qed
qed

lemma reserved_all: "list_all (\<lambda>c. shouldEscape c \<and> c \<noteq> CHR ''%'') ''$&+,/:;=?@''"
  by (simp add: shouldEscape_def less_eq_char_def)

lemma reserved_shouldEscape: "c \<in> reserved \<Longrightarrow> shouldEscape c \<and> c \<noteq> CHR ''%''"
  using reserved_all unfolding reserved_def list_all_iff by blast

lemma escape_append: "escape (a @ b) = escape a @ escape b"
  by (simp add: escape_def Replace_plus_def QueryEscape_def)

lemma escape_samples:
  "escape '' '' = ''%20''" "escape ''/'' = ''%2F''" "escape ''+'' = ''%2B''" "escape ''%'' = ''%25''"
  by (simp_all add: escape_def Replace_plus_def QueryEscape_def QueryEscape_byte_def
        shouldEscape_def reserved_def upperhex_def less_eq_char_def)

lemma space_shouldEscape: "shouldEscape CHR '' ''"
  by (simp add: shouldEscape_def less_eq_char_def)

text \<open>
  Claim C6. The database name of a database-scoped metric fetch is percent-encoded: the
  encoded name consists of unreserved bytes and of \<open>%\<close> escapes only, so no reserved
  character remains raw, in particular no \<open>/\<close>; a space is encoded as \<open>%20\<close> (and no
  \<open>+\<close> remains, a literal \<open>+\<close> being \<open>%2B\<close>). The request of the database-scoped
  fetch carries the encoded name; the requests of the two other fetches carry their
  arguments as they are: the encoding is applied nowhere else.
\<close>

theorem escape_percent_encodes:
  "(\<forall>c \<in> set (escape dbName'). c = CHR ''%'' \<or> \<not> shouldEscape c)
   \<and> (\<forall>c \<in> reserved. c \<notin> set (escape dbName'))
   \<and> CHR ''/'' \<notin> set (escape dbName')
   \<and> CHR '' '' \<notin> set (escape dbName')
   \<and> CHR ''+'' \<notin> set (escape dbName')
   \<and> escape (a @ '' '' @ b) = escape a @ ''%20'' @ escape b
   \<and> escape (a @ ''/'' @ b) = escape a @ ''%2F'' @ escape b
   \<and> escape (a @ ''+'' @ b) = escape a @ ''%2B'' @ escape b
   \<and> requests (fst (GetHostDBMetric E api k g h m dbName' gr p))
       = [api_hostname api @ ''/api/public/v1.0/groups/'' @ g @ ''/hosts/'' @ h @ ''/metrics/'' @ m
            @ ''/'' @ escape dbName' @ ''?granularity='' @ gr @ ''&period=PT'' @ p]
   \<and> requests (fst (GetHostMetric E api k g h m gr p))
       = [api_hostname api @ ''/api/public/v1.0/groups/'' @ g @ ''/hosts/'' @ h @ ''/metrics/'' @ m
            @ ''?granularity='' @ gr @ ''&period=PT'' @ p]
   \<and> requests (fst (GetHostByName E api k g n))
       = [api_hostname api @ ''/api/public/v1.0/groups/'' @ g @ ''/hosts/byName/'' @ n]"
proof -
  have chars: "\<forall>c \<in> set (escape dbName'). c = CHR ''%'' \<or> \<not> shouldEscape c"
    using escape_chars by blast
  have res: "\<forall>c \<in> reserved. c \<notin> set (escape dbName')"
    using chars reserved_shouldEscape by blast
  have slash: "CHR ''/'' \<in> reserved" and plus: "CHR ''+'' \<in> reserved"
    by (simp_all add: reserved_def)
  have sp: "CHR '' '' \<notin> set (escape dbName')"
    using chars space_shouldEscape by fastforce
  have e1: "escape (a @ '' '' @ b) = escape a @ ''%20'' @ escape b"
    by (simp only: escape_append escape_samples)
  have e2: "escape (a @ ''/'' @ b) = escape a @ ''%2F'' @ escape b"
    by (simp only: escape_append escape_samples)
  have e3: "escape (a @ ''+'' @ b) = escape a @ ''%2B'' @ escape b"
    by (simp only: escape_append escape_samples)
  have r1: "requests (fst (GetHostDBMetric E api k g h m dbName' gr p))
       = [api_hostname api @ ''/api/public/v1.0/groups/'' @ g @ ''/hosts/'' @ h @ ''/metrics/'' @ m
            @ ''/'' @ escape dbName' @ ''?granularity='' @ gr @ ''&period=PT'' @ p]"
    by (simp add: GetHostDBMetric_events hostDBMetricPath_def)
  have r2: "requests (fst (GetHostMetric E api k g h m gr p))
       = [api_hostname api @ ''/api/public/v1.0/groups/'' @ g @ ''/hosts/'' @ h @ ''/metrics/'' @ m
            @ ''?granularity='' @ gr @ ''&period=PT'' @ p]"
    by (simp add: GetHostMetric_events hostMetricPath_def)
  have r3: "requests (fst (GetHostByName E api k g n))
       = [api_hostname api @ ''/api/public/v1.0/groups/'' @ g @ ''/hosts/byName/'' @ n]"
    by (simp add: GetHostByName_events hostByNamePath_def)
  show ?thesis
    using chars res slash plus sp e1 e2 e3 r1 r2 r3 by blast
qed

lemma escape_my_db: "escape ''my db/x+y'' = ''my%20db%2Fx%2By''"
  by (simp add: escape_def Replace_plus_def QueryEscape_def QueryEscape_byte_def
        shouldEscape_def reserved_def upperhex_def less_eq_char_def)

theorem escape_percent_encodes_witness:
  "CHR ''/'' \<in> reserved
   \<and> CHR ''/'' \<notin> set (escape ''my db/x+y'')
   \<and> CHR ''%'' \<in> set (escape ''my db/x+y'')
   \<and> escape ''my db/x+y'' = ''my%20db%2Fx%2By''
   \<and> requests (fst (GetHostDBMetric (okEnv 0) sampleAPI 1 ''g1'' ''h1'' ''DB_DATA_SIZE_TOTAL''
                      ''my db/x+y'' ''MINUTE'' ''1H''))
       = [''https://mms.mongodb.com/api/public/v1.0/groups/g1/hosts/h1/metrics/DB_DATA_SIZE_TOTAL/my%20db%2Fx%2By?granularity=MINUTE&period=PT1H'']"
proof -
  note t = escape_percent_encodes
             [where dbName' = "''my db/x+y''" and E = "okEnv 0" and api = sampleAPI and k = 1
                and g = "''g1''" and h = "''h1''" and m = "''DB_DATA_SIZE_TOTAL''"
                and gr = "''MINUTE''" and p = "''1H''"]
  have s: "CHR ''/'' \<in> reserved" by (simp add: reserved_def)
  have n: "CHR ''/'' \<notin> set (escape ''my db/x+y'')"
    using t [THEN conjunct2, THEN conjunct1] s by blast
  have c: "CHR ''%'' \<in> set (escape ''my db/x+y'')"
    by (simp add: escape_my_db)
  have r: "requests (fst (GetHostDBMetric (okEnv 0) sampleAPI 1 ''g1'' ''h1'' ''DB_DATA_SIZE_TOTAL''
                      ''my db/x+y'' ''MINUTE'' ''1H''))
       = [''https://mms.mongodb.com/api/public/v1.0/groups/g1/hosts/h1/metrics/DB_DATA_SIZE_TOTAL/my%20db%2Fx%2By?granularity=MINUTE&period=PT1H'']"
    using t by (simp add: escape_my_db sampleAPI_def serverDefault_def)
  show ?thesis using s n c r escape_my_db by blast
qed

subsection \<open>Errors of the service\<close>

lemma hostFetch_error:
  assumes "hostname F \<noteq> []" and "groupId F \<noteq> []" and "clientError E = None"
      and "GetHostByName E \<lparr>api_hostname = server F\<rparr> 0 (groupId F) (hostname F) = (evs, Inl err)"
  shows "main E F = evs @ [AddResult UNKNOWN err, Finish]"
  using assms by (simp add: main_def NewMMSAPI_def)

lemma metricFetch_error:
  assumes "fetchMetric E F api host = (evs, Inl err)"
  shows "doMetricCheck E F api host = evs @ [AddResult UNKNOWN err]"
  using assms by (simp add: doMetricCheck_def)

lemma doGet_non200:
  assumes "httpGet E k (api_hostname api @ ''/api/public/v1.0'' @ path) = Response statusCode body"
      and "statusCode \<noteq> 200"
  shows "doGet E api k path
           = ([HttpGet (api_hostname api @ ''/api/public/v1.0'' @ path)],
              Inl (handleError E statusCode body))"
  using assms by (simp add: doGet_def Let_def)

lemma GetHostByName_non200:
  assumes "httpGet E k (api_hostname api @ ''/api/public/v1.0'' @ hostByNamePath g n)
             = Response statusCode body"
      and "statusCode \<noteq> 200"
  shows "GetHostByName E api k g n
           = ([HttpGet (api_hostname api @ ''/api/public/v1.0'' @ hostByNamePath g n)],
              Inl (handleError E statusCode body))"
  by (simp add: GetHostByName_def doGet_non200 [OF assms])

lemma GetHostMetric_non200:
  assumes "httpGet E k (api_hostname api @ ''/api/public/v1.0'' @ hostMetricPath g h m gr p)
             = Response statusCode body"
      and "statusCode \<noteq> 200"
  shows "GetHostMetric E api k g h m gr p
           = ([HttpGet (api_hostname api @ ''/api/public/v1.0'' @ hostMetricPath g h m gr p)],
              Inl (handleError E statusCode body))"
  by (simp add: GetHostMetric_def doGet_non200 [OF assms])

lemma GetHostDBMetric_non200:
  assumes "httpGet E k (api_hostname api @ ''/api/public/v1.0'' @ hostDBMetricPath g h m d gr p)
             = Response statusCode body"
      and "statusCode \<noteq> 200"
  shows "GetHostDBMetric E api k g h m d gr p
           = ([HttpGet (api_hostname api @ ''/api/public/v1.0'' @ hostDBMetricPath g h m d gr p)],
              Inl (handleError E statusCode body))"
  by (simp add: GetHostDBMetric_def doGet_non200 [OF assms])

lemma sampleJson_simps:
  "sampleJsonKind errorBody = Some KObject"
  "sampleJsonKind overflowBody = Some KObject"
  "sampleJsonKind ''[]'' = Some KArray"
  "sampleJsonKind ''null'' = Some KNull"
  "sampleJsonKind ''<html>Bad Gateway</html>'' = None"
  "sampleStoreObject errorBody
     = Some [''reason'' \<mapsto> GoString ''Not Found'', ''detail'' \<mapsto> GoString ''No host h1'']"
  "sampleStoreObject overflowBody = None"
  by (simp_all add: sampleJsonKind_def sampleStoreObject_def errorBody_def overflowBody_def
        quoted_def)

lemma scenario_env_simps:
  "jsonKind notFoundEnv = sampleJsonKind"
  "jsonKind badGatewayEnv = sampleJsonKind"
  "jsonKind arrayBodyEnv = sampleJsonKind"
  "clientError notFoundEnv = None"
  "clientError arrayBodyEnv = None"
  "httpGet notFoundEnv 0 = (\<lambda>uri. Response 404 errorBody)"
  "httpGet arrayBodyEnv 0 = (\<lambda>uri. Response 500 ''[]'')"
  "storeObject notFoundEnv = sampleStoreObject"
  "storeObject badGatewayEnv = sampleStoreObject"
  by (simp_all add: notFoundEnv_def badGatewayEnv_def arrayBodyEnv_def sampleEnv_def)

lemma sampleFlags_required:
  "hostname (sampleFlags m d w c) \<noteq> []" "groupId (sampleFlags m d w c) \<noteq> []"
  by (simp_all add: sampleFlags_def)

text \<open>
  Claim C7, as amended. For an API response with a status code other than 200: if the body
  is a JSON object and \<open>json.Unmarshal\<close> stores it into the map without error, the error
  message is \<open>API Error: reason (detail)\<close>, each of the two members rendered by \<open>%v\<close> as
  it was stored, so a string member as its text and a missing or null member as
  \<open><nil>\<close>; a body \<open>null\<close> gives \<open>API Error: <nil> (<nil>)\<close>; if the body is not
  valid JSON, or is valid JSON of another kind (a boolean, a number, a string, an array),
  or is an object that \<open>json.Unmarshal\<close> cannot store into the map (one that holds a
  number outside \<open>float64\<close>, for example), the error is the generic decode failure that
  names the raw body. In each case the error is the message of the single UNKNOWN
  result, for the host request and for both metric requests.
\<close>

theorem handleError_message:
  "(\<forall>jsonBody. jsonKind E body = Some KObject \<and> storeObject E body = Some jsonBody \<longrightarrow>
       handleError E statusCode body
         = ''API Error: '' @ fmt_v E (jsonBody ''reason'') @ '' (''
             @ fmt_v E (jsonBody ''detail'') @ '')'')
   \<and> (\<forall>jsonBody reason detail.
         jsonKind E body = Some KObject \<and> storeObject E body = Some jsonBody
         \<and> jsonBody ''reason'' = Some (GoString reason)
         \<and> jsonBody ''detail'' = Some (GoString detail) \<longrightarrow>
         handleError E statusCode body = ''API Error: '' @ reason @ '' ('' @ detail @ '')'')
   \<and> (jsonKind E body = Some KNull \<longrightarrow>
         handleError E statusCode body = ''API Error: <nil> (<nil>)'')
   \<and> (jsonKind E body = None
        \<or> jsonKind E body = Some KBool
        \<or> jsonKind E body = Some KNumber
        \<or> jsonKind E body = Some KString
        \<or> jsonKind E body = Some KArray
        \<or> (jsonKind E body = Some KObject \<and> storeObject E body = None) \<longrightarrow>
         handleError E statusCode body = ''API response did not contain valid JSON. Body: '' @ body)
   \<and> (hostname F \<noteq> [] \<and> groupId F \<noteq> [] \<and> clientError E = None
        \<and> httpGet E 0 (server F @ ''/api/public/v1.0'' @ hostByNamePath (groupId F) (hostname F))
             = Response statusCode body
        \<and> statusCode \<noteq> 200 \<longrightarrow>
         results (main E F) = [(UNKNOWN, handleError E statusCode body)])
   \<and> (dbName F = []
        \<and> httpGet E 1 (api_hostname api @ ''/api/public/v1.0''
                         @ hostMetricPath (groupId F) (Id_host host) (metricName F) (granularity F) (period F))
             = Response statusCode body
        \<and> statusCode \<noteq> 200 \<longrightarrow>
         results (doMetricCheck E F api host) = [(UNKNOWN, handleError E statusCode body)])
   \<and> (dbName F \<noteq> []
        \<and> httpGet E 1 (api_hostname api @ ''/api/public/v1.0''
                         @ hostDBMetricPath (groupId F) (Id_host host) (metricName F) (dbName F)
                             (granularity F) (period F))
             = Response statusCode body
        \<and> statusCode \<noteq> 200 \<longrightarrow>
         results (doMetricCheck E F api host) = [(UNKNOWN, handleError E statusCode body)])"
proof (intro conjI allI impI)
  fix jsonBody
  assume "jsonKind E body = Some KObject \<and> storeObject E body = Some jsonBody"
  then show "handleError E statusCode body
         = ''API Error: '' @ fmt_v E (jsonBody ''reason'') @ '' (''
             @ fmt_v E (jsonBody ''detail'') @ '')''"
    by (simp add: handleError_def unmarshalMap_def)
next
  fix jsonBody reason detail
  assume "jsonKind E body = Some KObject \<and> storeObject E body = Some jsonBody
         \<and> jsonBody ''reason'' = Some (GoString reason)
         \<and> jsonBody ''detail'' = Some (GoString detail)"
  then show "handleError E statusCode body = ''API Error: '' @ reason @ '' ('' @ detail @ '')''"
    by (simp add: handleError_def unmarshalMap_def)
next
  assume "jsonKind E body = Some KNull"
  then show "handleError E statusCode body = ''API Error: <nil> (<nil>)''"
    by (simp add: handleError_def unmarshalMap_def)
next
  assume "jsonKind E body = None
        \<or> jsonKind E body = Some KBool
        \<or> jsonKind E body = Some KNumber
        \<or> jsonKind E body = Some KString
        \<or> jsonKind E body = Some KArray
        \<or> (jsonKind E body = Some KObject \<and> storeObject E body = None)"
  then have "unmarshalMap E body = None"
    by (auto simp: unmarshalMap_def)
  then show "handleError E statusCode body = ''API response did not contain valid JSON. Body: '' @ body"
    by (simp add: handleError_def)
next
  assume a: "hostname F \<noteq> [] \<and> groupId F \<noteq> [] \<and> clientError E = None
        \<and> httpGet E 0 (server F @ ''/api/public/v1.0'' @ hostByNamePath (groupId F) (hostname F))
             = Response statusCode body
        \<and> statusCode \<noteq> 200"
  then have "GetHostByName E \<lparr>api_hostname = server F\<rparr> 0 (groupId F) (hostname F)
           = ([HttpGet (server F @ ''/api/public/v1.0'' @ hostByNamePath (groupId F) (hostname F))],
              Inl (handleError E statusCode body))"
    using GetHostByName_non200 [of E 0 "\<lparr>api_hostname = server F\<rparr>" "groupId F" "hostname F"
                                  statusCode body]
    by simp
  with a have "main E F
           = [HttpGet (server F @ ''/api/public/v1.0'' @ hostByNamePath (groupId F) (hostname F))]
             @ [AddResult UNKNOWN (handleError E statusCode body), Finish]"
    using hostFetch_error by blast
  then show "results (main E F) = [(UNKNOWN, handleError E statusCode body)]"
    by simp
next
  assume a: "dbName F = []
        \<and> httpGet E 1 (api_hostname api @ ''/api/public/v1.0''
                         @ hostMetricPath (groupId F) (Id_host host) (metricName F) (granularity F) (period F))
             = Response statusCode body
        \<and> statusCode \<noteq> 200"
  then have "fetchMetric E F api host
           = ([HttpGet (api_hostname api @ ''/api/public/v1.0''
                         @ hostMetricPath (groupId F) (Id_host host) (metricName F) (granularity F) (period F))],
              Inl (handleError E statusCode body))"
    by (simp add: fetchMetric_def GetHostMetric_non200)
  then show "results (doMetricCheck E F api host) = [(UNKNOWN, handleError E statusCode body)]"
    by (simp add: metricFetch_error)
next
  assume a: "dbName F \<noteq> []
        \<and> httpGet E 1 (api_hostname api @ ''/api/public/v1.0''
                         @ hostDBMetricPath (groupId F) (Id_host host) (metricName F) (dbName F)
                             (granularity F) (period F))
             = Response statusCode body
        \<and> statusCode \<noteq> 200"
  then have "fetchMetric E F api host
           = ([HttpGet (api_hostname api @ ''/api/public/v1.0''
                         @ hostDBMetricPath (groupId F) (Id_host host) (metricName F) (dbName F)
                             (granularity F) (period F))],
              Inl (handleError E statusCode body))"
    by (simp add: fetchMetric_def GetHostDBMetric_non200)
  then show "results (doMetricCheck E F api host) = [(UNKNOWN, handleError E statusCode body)]"
    by (simp add: metricFetch_error)
qed

theorem handleError_message_witness:
  "jsonKind notFoundEnv errorBody = Some KObject
   \<and> storeObject notFoundEnv errorBody
       = Some [''reason'' \<mapsto> GoString ''Not Found'', ''detail'' \<mapsto> GoString ''No host h1'']
   \<and> [''reason'' \<mapsto> GoString ''Not Found'', ''detail'' \<mapsto> GoString ''No host h1''] ''reason''
       = Some (GoString ''Not Found'')
   \<and> [''reason'' \<mapsto> GoString ''Not Found'', ''detail'' \<mapsto> GoString ''No host h1''] ''detail''
       = Some (GoString ''No host h1'')
   \<and> handleError notFoundEnv 404 errorBody = ''API Error: Not Found (No host h1)''
   \<and> hostname (sampleFlags [] [] ''~:'' ''~:'') \<noteq> []
   \<and> groupId (sampleFlags [] [] ''~:'' ''~:'') \<noteq> []
   \<and> clientError notFoundEnv = None
   \<and> httpGet notFoundEnv 0
         (server (sampleFlags [] [] ''~:'' ''~:'') @ ''/api/public/v1.0''
            @ hostByNamePath (groupId (sampleFlags [] [] ''~:'' ''~:''))
                (hostname (sampleFlags [] [] ''~:'' ''~:'')))
       = Response 404 errorBody
   \<and> results (main notFoundEnv (sampleFlags [] [] ''~:'' ''~:''))
       = [(UNKNOWN, ''API Error: Not Found (No host h1)'')]
   \<and> jsonKind badGatewayEnv ''null'' = Some KNull
   \<and> handleError badGatewayEnv 500 ''null'' = ''API Error: <nil> (<nil>)''
   \<and> jsonKind badGatewayEnv overflowBody = Some KObject
   \<and> storeObject badGatewayEnv overflowBody = None
   \<and> handleError badGatewayEnv 500 overflowBody
       = ''API response did not contain valid JSON. Body: '' @ overflowBody
   \<and> jsonKind badGatewayEnv ''<html>Bad Gateway</html>'' = None
   \<and> handleError badGatewayEnv 502 ''<html>Bad Gateway</html>''
       = ''API response did not contain valid JSON. Body: <html>Bad Gateway</html>''
   \<and> results (doMetricCheck badGatewayEnv (sampleFlags ''OPCOUNTERS_CMD'' [] ''~:'' ''~:'')
                 sampleAPI sampleHost)
       = [(UNKNOWN, ''API response did not contain valid JSON. Body: <html>Bad Gateway</html>'')]
   \<and> results (doMetricCheck badGatewayEnv (sampleFlags ''DB_DATA_SIZE_TOTAL'' ''my db'' ''~:'' ''~:'')
                 sampleAPI sampleHost)
       = [(UNKNOWN, ''API response did not contain valid JSON. Body: <html>Bad Gateway</html>'')]"
proof -
  note t1 = handleError_message
              [where E = notFoundEnv and body = errorBody and statusCode = 404
                 and F = "sampleFlags [] [] ''~:'' ''~:''"]
  note t2 = handleError_message
              [where E = badGatewayEnv and body = "''null''" and statusCode = 500]
  note t3 = handleError_message
              [where E = badGatewayEnv and body = "''<html>Bad Gateway</html>''" and statusCode = 502
                 and F = "sampleFlags ''OPCOUNTERS_CMD'' [] ''~:'' ''~:''"
                 and api = sampleAPI and host = sampleHost]
  note t4 = handleError_message
              [where E = badGatewayEnv and body = "''<html>Bad Gateway</html>''" and statusCode = 502
                 and F = "sampleFlags ''DB_DATA_SIZE_TOTAL'' ''my db'' ''~:'' ''~:''"
                 and api = sampleAPI and host = sampleHost]
  note t5 = handleError_message
              [where E = badGatewayEnv and body = overflowBody and statusCode = 500]
  have j1: "jsonKind notFoundEnv errorBody = Some KObject"
    by (simp add: scenario_env_simps sampleJson_simps)
  have s1: "storeObject notFoundEnv errorBody
       = Some [''reason'' \<mapsto> GoString ''Not Found'', ''detail'' \<mapsto> GoString ''No host h1'']"
    by (simp add: scenario_env_simps sampleJson_simps)
  have m1: "[''reason'' \<mapsto> GoString ''Not Found'', ''detail'' \<mapsto> GoString ''No host h1''] ''reason''
       = Some (GoString ''Not Found'')"
    and m2: "[''reason'' \<mapsto> GoString ''Not Found'', ''detail'' \<mapsto> GoString ''No host h1''] ''detail''
       = Some (GoString ''No host h1'')"
    by simp_all
  have h1: "handleError notFoundEnv 404 errorBody = ''API Error: Not Found (No host h1)''"
    using t1 [THEN conjunct2, THEN conjunct1, rule_format, OF conjI, OF j1 conjI, OF s1 conjI,
              OF m1 m2]
    by simp
  have g1: "httpGet notFoundEnv 0
         (server (sampleFlags [] [] ''~:'' ''~:'') @ ''/api/public/v1.0''
            @ hostByNamePath (groupId (sampleFlags [] [] ''~:'' ''~:''))
                (hostname (sampleFlags [] [] ''~:'' ''~:'')))
       = Response 404 errorBody"
    by (simp add: scenario_env_simps)
  have ne: "(404::int) \<noteq> 200" "(502::int) \<noteq> 200" by simp_all
  have r1: "results (main notFoundEnv (sampleFlags [] [] ''~:'' ''~:''))
       = [(UNKNOWN, ''API Error: Not Found (No host h1)'')]"
    using t1 [THEN conjunct2, THEN conjunct2, THEN conjunct2, THEN conjunct2, THEN conjunct1,
              rule_format, OF conjI, OF sampleFlags_required(1) conjI, OF sampleFlags_required(2) conjI,
              OF scenario_env_simps(4) conjI, OF g1 ne(1)]
    by (simp only: h1)
  have j2: "jsonKind badGatewayEnv ''null'' = Some KNull"
    by (simp add: scenario_env_simps sampleJson_simps)
  have h2: "handleError badGatewayEnv 500 ''null'' = ''API Error: <nil> (<nil>)''"
    using t2 [THEN conjunct2, THEN conjunct2, THEN conjunct1, rule_format, OF j2] .
  have j5: "jsonKind badGatewayEnv overflowBody = Some KObject"
    by (simp add: scenario_env_simps sampleJson_simps)
  have s5: "storeObject badGatewayEnv overflowBody = None"
    by (simp add: scenario_env_simps sampleJson_simps)
  have h5: "handleError badGatewayEnv 500 overflowBody
       = ''API response did not contain valid JSON. Body: '' @ overflowBody"
    by (rule t5 [THEN conjunct2, THEN conjunct2, THEN conjunct2, THEN conjunct1, rule_format,
                 OF disjI2, OF disjI2, OF disjI2, OF disjI2, OF disjI2, OF conjI, OF j5 s5])
  have j3: "jsonKind badGatewayEnv ''<html>Bad Gateway</html>'' = None"
    by (simp add: scenario_env_simps sampleJson_simps)
  have h3: "handleError badGatewayEnv 502 ''<html>Bad Gateway</html>''
       = ''API response did not contain valid JSON. Body: <html>Bad Gateway</html>''"
    using t3 [THEN conjunct2, THEN conjunct2, THEN conjunct2, THEN conjunct1, rule_format,
              OF disjI1, OF j3]
    by simp
  have d3: "dbName (sampleFlags ''OPCOUNTERS_CMD'' [] ''~:'' ''~:'') = []"
    by (simp add: sampleFlags_def)
  have d4: "dbName (sampleFlags ''DB_DATA_SIZE_TOTAL'' ''my db'' ''~:'' ''~:'') \<noteq> []"
    by (simp add: sampleFlags_def)
  have g3: "httpGet badGatewayEnv 1 uri = Response 502 ''<html>Bad Gateway</html>''" for uri
    by (simp add: badGatewayEnv_def sampleEnv_def)
  have r3: "results (doMetricCheck badGatewayEnv (sampleFlags ''OPCOUNTERS_CMD'' [] ''~:'' ''~:'')
                 sampleAPI sampleHost)
       = [(UNKNOWN, ''API response did not contain valid JSON. Body: <html>Bad Gateway</html>'')]"
    using t3 [THEN conjunct2, THEN conjunct2, THEN conjunct2, THEN conjunct2, THEN conjunct2,
              THEN conjunct1, rule_format, OF conjI, OF d3 conjI, OF g3 ne(2)]
    by (simp only: h3)
  have r4: "results (doMetricCheck badGatewayEnv (sampleFlags ''DB_DATA_SIZE_TOTAL'' ''my db'' ''~:'' ''~:'')
                 sampleAPI sampleHost)
       = [(UNKNOWN, ''API response did not contain valid JSON. Body: <html>Bad Gateway</html>'')]"
    using t4 [THEN conjunct2, THEN conjunct2, THEN conjunct2, THEN conjunct2, THEN conjunct2,
              THEN conjunct2, rule_format, OF conjI, OF d4 conjI, OF g3 ne(2)]
    by (simp only: h3)
  show ?thesis
    by (intro conjI)
       (rule j1 s1 m1 m2 h1 sampleFlags_required scenario_env_simps(4) g1 r1 j2 h2 j5 s5 h5 j3 h3
             r3 r4)+
qed

text \<open>
  The claim as stated fails for a body that is valid JSON but not an object: decoding the
  array \<open>[]\<close> into a \<open>map[string]interface{}\<close> is an error, so the message is the
  generic decode failure and embeds no \<open>reason\<close> and no \<open>detail\<close>.
\<close>

theorem handleError_valid_json_counterexample:
  "jsonKind arrayBodyEnv ''[]'' = Some KArray
   \<and> handleError arrayBodyEnv 500 ''[]'' = ''API response did not contain valid JSON. Body: []''
   \<and> results (main arrayBodyEnv (sampleFlags [] [] ''~:'' ''~:''))
       = [(UNKNOWN, ''API response did not contain valid JSON. Body: []'')]"
  by (simp add: arrayBodyEnv_def main_def api_defs sample_defs)

subsection \<open>Failures\<close>

lemma doHostCheck_one_result: "length (results (doHostCheck E F host)) = 1"
  by (simp add: doHostCheck_unfold split: sum.splits)

lemma evalMetric_one_result: "length (results (evalMetric E F metric)) = 1"
  by (simp add: evalMetric_def Let_def split: sum.splits)

lemma doMetricCheck_one_result: "length (results (doMetricCheck E F api host)) = 1"
proof (cases "fetchMetric E F api host")
  case (Pair evs r)
  show ?thesis
  proof (cases r)
    case (Inl err)
    with Pair fetchMetric_silent [OF Pair] show ?thesis
      by (simp add: metricFetch_error trace_append)
  next
    case (Inr metric)
    with Pair show ?thesis
      by (simp add: doMetricCheck_projections evalMetric_one_result)
  qed
qed

lemma main_one_result: "length (results (main E F)) \<le> 1"
proof (cases "hostname F = [] \<or> groupId F = []")
  case True
  then have "main E F = Usage @ [Exit 2]" by (auto simp: main_def)
  then show ?thesis by (simp add: trace_append Usage_def)
next
  case False
  show ?thesis
  proof (cases "clientError E")
    case (Some err)
    with False show ?thesis by (simp add: main_def NewMMSAPI_def)
  next
    case None
    obtain evs r where g: "GetHostByName E \<lparr>api_hostname = server F\<rparr> 0 (groupId F) (hostname F) = (evs, r)"
      by (cases "GetHostByName E \<lparr>api_hostname = server F\<rparr> 0 (groupId F) (hostname F)")
    have evs: "results evs = []"
      using GetHostByName_events [of E "\<lparr>api_hostname = server F\<rparr>" 0 "groupId F" "hostname F"] g
      by simp
    show ?thesis
    proof (cases r)
      case (Inl err)
      with False None g evs show ?thesis
        by (simp add: main_def NewMMSAPI_def trace_append)
    next
      case (Inr host)
      with False None g evs show ?thesis
        by (simp add: main_def NewMMSAPI_def trace_append doHostCheck_one_result
              doMetricCheck_one_result)
    qed
  qed
qed

lemma doHostCheck_parse_failure:
  assumes m: "ParseRangeCall spec \<in> set (doHostCheck E F host)"
      and f: "ParseRange E spec = Inl err"
  shows "\<exists>pre label.
           (label = ''Error parsing critical range. Error: ''
            \<or> label = ''Error parsing warning range. Error: '')
           \<and> doHostCheck E F host = pre @ [ParseRangeCall spec, AddResult UNKNOWN (label @ err)]
           \<and> results pre = []"
proof (cases "ParseRange E (critical F)")
  case (Inl e)
  then have tr: "doHostCheck E F host
                   = [ParseRangeCall (critical F),
                      AddResult UNKNOWN (''Error parsing critical range. Error: '' @ e)]"
    by (simp add: doHostCheck_unfold)
  with m have "spec = critical F" by simp
  with f Inl have "e = err" by simp
  with tr \<open>spec = critical F\<close>
  have "doHostCheck E F host
          = [] @ [ParseRangeCall spec, AddResult UNKNOWN (''Error parsing critical range. Error: '' @ err)]
        \<and> results [] = []"
    by simp
  then show ?thesis by blast
next
  case (Inr critRange)
  show ?thesis
  proof (cases "RangeCheck E critRange (hostAge E host)")
    case True
    with Inr have "doHostCheck E F host
                   = [ParseRangeCall (critical F),
                      AddResult CRITICAL (Sprintf0 E (lastPingMessage E (Since (clock E) (LastPing host))))]"
      by (simp add: doHostCheck_unfold)
    with m have "spec = critical F" by simp
    with f Inr show ?thesis by simp
  next
    case False
    show ?thesis
    proof (cases "ParseRange E (warning F)")
      case (Inl e)
      with Inr False have tr: "doHostCheck E F host
                   = [ParseRangeCall (critical F), ParseRangeCall (warning F),
                      AddResult UNKNOWN (''Error parsing warning range. Error: '' @ e)]"
        by (simp add: doHostCheck_unfold)
      with m have "spec = critical F \<or> spec = warning F" by simp
      with f Inr have "spec = warning F" by auto
      with f Inl have "e = err" by simp
      with tr \<open>spec = warning F\<close>
      have "doHostCheck E F host
              = [ParseRangeCall (critical F)]
                @ [ParseRangeCall spec, AddResult UNKNOWN (''Error parsing warning range. Error: '' @ err)]
            \<and> results [ParseRangeCall (critical F)] = []"
        by simp
      then show ?thesis by blast
    next
      case (Inr warnRange)
      with \<open>ParseRange E (critical F) = Inr critRange\<close> False
      have "\<exists>st. doHostCheck E F host
                   = [ParseRangeCall (critical F), ParseRangeCall (warning F),
                      AddResult st (Sprintf0 E (lastPingMessage E (Since (clock E) (LastPing host))))]"
        by (simp add: doHostCheck_unfold)
      then obtain st where "doHostCheck E F host
                   = [ParseRangeCall (critical F), ParseRangeCall (warning F),
                      AddResult st (Sprintf0 E (lastPingMessage E (Since (clock E) (LastPing host))))]"
        by blast
      with m have "spec = critical F \<or> spec = warning F" by simp
      then have False
      proof
        assume "spec = critical F"
        with f \<open>ParseRange E (critical F) = Inr critRange\<close> show False by simp
      next
        assume "spec = warning F"
        with f Inr show False by simp
      qed
      then show ?thesis ..
    qed
  qed
qed

lemma evalMetric_parse_failure:
  assumes m: "ParseRangeCall spec \<in> set (evalMetric E F metric)"
      and f: "ParseRange E spec = Inl err"
  shows "\<exists>pre label.
           (label = ''Error parsing critical range. Error: ''
            \<or> label = ''Error parsing warning range. Error: '')
           \<and> evalMetric E F metric = pre @ [ParseRangeCall spec, AddResult UNKNOWN (label @ err)]
           \<and> results pre = []"
proof (cases "DataPoints metric = []")
  case True
  with m show ?thesis by (simp add: evalMetric_def)
next
  case ne: False
  show ?thesis
  proof (cases "dataAge E metric > maxAge F")
    case True
    with m ne show ?thesis by (simp add: evalMetric_stale)
  next
    case False
    then have fresh: "dataAge E metric \<le> maxAge F" by simp
    note ev = evalMetric_fresh [OF ne fresh]
    show ?thesis
    proof (cases "ParseRange E (critical F)")
      case (Inl e)
      then have tr: "evalMetric E F metric
                     = [AddPerfDatum (metricName F) [] (lastValue metric),
                        ParseRangeCall (critical F),
                        AddResult UNKNOWN (''Error parsing critical range. Error: '' @ e)]"
        by (simp add: ev)
      with m have "spec = critical F" by simp
      with f Inl have "e = err" by simp
      with tr \<open>spec = critical F\<close>
      have "evalMetric E F metric
              = [AddPerfDatum (metricName F) [] (lastValue metric)]
                @ [ParseRangeCall spec, AddResult UNKNOWN (''Error parsing critical range. Error: '' @ err)]
            \<and> results [AddPerfDatum (metricName F) [] (lastValue metric)] = []"
        by simp
      then show ?thesis by blast
    next
      case (Inr critRange)
      show ?thesis
      proof (cases "RangeCheck E critRange (lastValue metric)")
        case True
        with Inr have "evalMetric E F metric
                     = [AddPerfDatum (metricName F) [] (lastValue metric),
                        ParseRangeCall (critical F),
                        AddResult CRITICAL (Sprintf0 E (ToStringLastDataPoint E metric))]"
          by (simp add: ev)
        with m have "spec = critical F" by simp
        with f Inr show ?thesis by simp
      next
        case nocrit: False
        show ?thesis
        proof (cases "ParseRange E (warning F)")
          case (Inl e)
          with Inr nocrit have tr: "evalMetric E F metric
                     = [AddPerfDatum (metricName F) [] (lastValue metric),
                        ParseRangeCall (critical F), ParseRangeCall (warning F),
                        AddResult UNKNOWN (''Error parsing warning range. Error: '' @ e)]"
            by (simp add: ev)
          with m have "spec = critical F \<or> spec = warning F" by simp
          with f Inr have "spec = warning F" by auto
          with f Inl have "e = err" by simp
          with tr \<open>spec = warning F\<close>
          have "evalMetric E F metric
                  = [AddPerfDatum (metricName F) [] (lastValue metric), ParseRangeCall (critical F)]
                    @ [ParseRangeCall spec, AddResult UNKNOWN (''Error parsing warning range. Error: '' @ err)]
                \<and> results [AddPerfDatum (metricName F) [] (lastValue metric),
                            ParseRangeCall (critical F)] = []"
            by simp
          then show ?thesis by blast
        next
          case (Inr warnRange)
          with \<open>ParseRange E (critical F) = Inr critRange\<close> nocrit
          have "\<exists>st. evalMetric E F metric
                     = [AddPerfDatum (metricName F) [] (lastValue metric),
                        ParseRangeCall (critical F), ParseRangeCall (warning F),
                        AddResult st (Sprintf0 E (ToStringLastDataPoint E metric))]"
            by (simp add: ev)
          then obtain st where "evalMetric E F metric
                     = [AddPerfDatum (metricName F) [] (lastValue metric),
                        ParseRangeCall (critical F), ParseRangeCall (warning F),
                        AddResult st (Sprintf0 E (ToStringLastDataPoint E metric))]"
            by blast
          with m have "spec = critical F \<or> spec = warning F" by simp
          then have False
          proof
            assume "spec = critical F"
            with f \<open>ParseRange E (critical F) = Inr critRange\<close> show False by simp
          next
            assume "spec = warning F"
            with f Inr show False by simp
          qed
          then show ?thesis ..
        qed
      qed
    qed
  qed
qed

lemma doMetricCheck_parse_failure:
  assumes m: "ParseRangeCall spec \<in> set (doMetricCheck E F api host)"
      and f: "ParseRange E spec = Inl err"
  shows "\<exists>pre label.
           (label = ''Error parsing critical range. Error: ''
            \<or> label = ''Error parsing warning range. Error: '')
           \<and> doMetricCheck E F api host = pre @ [ParseRangeCall spec, AddResult UNKNOWN (label @ err)]
           \<and> results pre = []"
proof (cases "fetchMetric E F api host")
  case (Pair evs r)
  from fetchMetric_events [OF Pair] obtain uri where evs: "evs = [HttpGet uri]" by blast
  show ?thesis
  proof (cases r)
    case (Inl e)
    with Pair have "doMetricCheck E F api host = evs @ [AddResult UNKNOWN e]"
      by (simp add: metricFetch_error)
    with m evs show ?thesis by simp
  next
    case (Inr metric)
    with Pair have tr: "doMetricCheck E F api host = evs @ evalMetric E F metric"
      by (simp add: doMetricCheck_fetched)
    with m evs have "ParseRangeCall spec \<in> set (evalMetric E F metric)" by simp
    from evalMetric_parse_failure [OF this f] obtain pre label where
      l: "label = ''Error parsing critical range. Error: ''
            \<or> label = ''Error parsing warning range. Error: ''"
      and e: "evalMetric E F metric = pre @ [ParseRangeCall spec, AddResult UNKNOWN (label @ err)]"
      and p: "results pre = []"
      by blast
    have "doMetricCheck E F api host
            = (evs @ pre) @ [ParseRangeCall spec, AddResult UNKNOWN (label @ err)]
          \<and> results (evs @ pre) = []"
      using tr e p evs by (simp add: trace_append)
    with l show ?thesis by blast
  qed
qed

lemma main_parse_failure:
  assumes m: "ParseRangeCall spec \<in> set (main E F)"
      and f: "ParseRange E spec = Inl err"
  shows "\<exists>pre label.
           (label = ''Error parsing critical range. Error: ''
            \<or> label = ''Error parsing warning range. Error: '')
           \<and> main E F = pre @ [ParseRangeCall spec, AddResult UNKNOWN (label @ err), Finish]
           \<and> results pre = []"
proof (cases "hostname F = [] \<or> groupId F = []")
  case True
  then have "main E F = Usage @ [Exit 2]" by (auto simp: main_def)
  with m show ?thesis by (simp add: Usage_def)
next
  case False
  show ?thesis
  proof (cases "clientError E")
    case (Some e)
    with False m show ?thesis by (simp add: main_def NewMMSAPI_def)
  next
    case None
    obtain evs r where g: "GetHostByName E \<lparr>api_hostname = server F\<rparr> 0 (groupId F) (hostname F) = (evs, r)"
      by (cases "GetHostByName E \<lparr>api_hostname = server F\<rparr> 0 (groupId F) (hostname F)")
    obtain uri where evs: "evs = [HttpGet uri]"
      using GetHostByName_events [of E "\<lparr>api_hostname = server F\<rparr>" 0 "groupId F" "hostname F"] g
      by simp
    show ?thesis
    proof (cases r)
      case (Inl e)
      with False None g have "main E F = evs @ [AddResult UNKNOWN e, Finish]"
        by (simp add: main_def NewMMSAPI_def)
      with m evs show ?thesis by simp
    next
      case (Inr host)
      define chk where "chk = (if metricName F = [] then doHostCheck E F host
                               else doMetricCheck E F \<lparr>api_hostname = server F\<rparr> host)"
      from Inr False None g have tr: "main E F = evs @ chk @ [Finish]"
        by (simp add: main_def NewMMSAPI_def chk_def)
      with m evs have "ParseRangeCall spec \<in> set chk" by simp
      then have "\<exists>pre label.
           (label = ''Error parsing critical range. Error: ''
            \<or> label = ''Error parsing warning range. Error: '')
           \<and> chk = pre @ [ParseRangeCall spec, AddResult UNKNOWN (label @ err)]
           \<and> results pre = []"
        using doHostCheck_parse_failure [OF _ f] doMetricCheck_parse_failure [OF _ f]
        unfolding chk_def by (cases "metricName F = []") simp_all
      then obtain pre label where
        l: "label = ''Error parsing critical range. Error: ''
              \<or> label = ''Error parsing warning range. Error: ''"
        and e: "chk = pre @ [ParseRangeCall spec, AddResult UNKNOWN (label @ err)]"
        and p: "results pre = []"
        by blast
      have "main E F = (evs @ pre) @ [ParseRangeCall spec, AddResult UNKNOWN (label @ err), Finish]
            \<and> results (evs @ pre) = []"
        using tr e p evs by (simp add: trace_append)
      with l show ?thesis by blast
    qed
  qed
qed

lemma main_bogus_critical:
  "main (okEnv 500000000000) (sampleFlags [] [] ''0:200'' ''bogus'')
     = [HttpGet ''https://mms.mongodb.com/api/public/v1.0/groups/g1/hosts/byName/db1:27017'',
        ParseRangeCall ''bogus'',
        AddResult UNKNOWN ''Error parsing critical range. Error: cannot parse range bogus'',
        Finish]"
  by (simp add: main_def okEnv_def api_defs sample_defs doHostCheck_def)

lemma timeoutEnv_GetHostByName:
  "GetHostByName timeoutEnv \<lparr>api_hostname = server (sampleFlags [] [] ''~:'' ''~:'')\<rparr> 0
       (groupId (sampleFlags [] [] ''~:'' ''~:'')) (hostname (sampleFlags [] [] ''~:'' ''~:''))
     = ([HttpGet ''https://mms.mongodb.com/api/public/v1.0/groups/g1/hosts/byName/db1:27017''],
        Inl ''Failed to make HTTP request. Error: dial tcp: i/o timeout'')"
  by (simp add: timeoutEnv_def api_defs sample_defs)

lemma badGatewayEnv_GetHostByName:
  "GetHostByName badGatewayEnv
       \<lparr>api_hostname = server (sampleFlags ''OPCOUNTERS_CMD'' [] ''~:'' ''~:'')\<rparr> 0
       (groupId (sampleFlags ''OPCOUNTERS_CMD'' [] ''~:'' ''~:''))
       (hostname (sampleFlags ''OPCOUNTERS_CMD'' [] ''~:'' ''~:''))
     = ([HttpGet ''https://mms.mongodb.com/api/public/v1.0/groups/g1/hosts/byName/db1:27017''],
        Inr sampleHost)"
  by (simp add: badGatewayEnv_def api_defs sample_defs)

lemma badGatewayEnv_fetchMetric:
  "fetchMetric badGatewayEnv (sampleFlags ''OPCOUNTERS_CMD'' [] ''~:'' ''~:'')
       \<lparr>api_hostname = server (sampleFlags ''OPCOUNTERS_CMD'' [] ''~:'' ''~:'')\<rparr> sampleHost
     = ([HttpGet ''https://mms.mongodb.com/api/public/v1.0/groups/g1/hosts/h1/metrics/OPCOUNTERS_CMD?granularity=MINUTE&period=PT1H''],
        Inl ''API response did not contain valid JSON. Body: <html>Bad Gateway</html>'')"
  by (simp add: badGatewayEnv_def api_defs sample_defs)

text \<open>
  Claim C3. Every invocation adds at most one result to the check. Whenever a threshold
  text is handed to \<open>ParseRange\<close> and fails to parse, whether it is the critical or the
  warning one, the next and last thing the run does before \<open>Finish\<close> is to add an
  UNKNOWN result whose message ends with the parser's error text; whenever the host
  fetch or the metric fetch fails, the run adds an UNKNOWN result whose message is the
  error text of the fetch, and finishes.
\<close>

theorem failures_yield_single_unknown:
  "length (results (main E F)) \<le> 1
   \<and> (\<forall>spec err.
         ParseRangeCall spec \<in> set (main E F) \<and> ParseRange E spec = Inl err \<longrightarrow>
         (\<exists>pre label.
            (label = ''Error parsing critical range. Error: ''
             \<or> label = ''Error parsing warning range. Error: '')
            \<and> main E F = pre @ [ParseRangeCall spec, AddResult UNKNOWN (label @ err), Finish]
            \<and> results (main E F) = [(UNKNOWN, label @ err)]))
   \<and> (\<forall>evs err.
         hostname F \<noteq> [] \<and> groupId F \<noteq> [] \<and> clientError E = None
         \<and> GetHostByName E \<lparr>api_hostname = server F\<rparr> 0 (groupId F) (hostname F) = (evs, Inl err) \<longrightarrow>
         main E F = evs @ [AddResult UNKNOWN err, Finish]
         \<and> results (main E F) = [(UNKNOWN, err)])
   \<and> (\<forall>evs0 host evs err.
         hostname F \<noteq> [] \<and> groupId F \<noteq> [] \<and> clientError E = None
         \<and> GetHostByName E \<lparr>api_hostname = server F\<rparr> 0 (groupId F) (hostname F) = (evs0, Inr host)
         \<and> metricName F \<noteq> []
         \<and> fetchMetric E F \<lparr>api_hostname = server F\<rparr> host = (evs, Inl err) \<longrightarrow>
         main E F = evs0 @ evs @ [AddResult UNKNOWN err, Finish]
         \<and> results (main E F) = [(UNKNOWN, err)])"
proof -
  have c1: "length (results (main E F)) \<le> 1"
    by (rule main_one_result)
  have c2: "\<forall>spec err.
         ParseRangeCall spec \<in> set (main E F) \<and> ParseRange E spec = Inl err \<longrightarrow>
         (\<exists>pre label.
            (label = ''Error parsing critical range. Error: ''
             \<or> label = ''Error parsing warning range. Error: '')
            \<and> main E F = pre @ [ParseRangeCall spec, AddResult UNKNOWN (label @ err), Finish]
            \<and> results (main E F) = [(UNKNOWN, label @ err)])"
  proof (intro allI impI)
    fix spec err
    assume a: "ParseRangeCall spec \<in> set (main E F) \<and> ParseRange E spec = Inl err"
    from a have a1: "ParseRangeCall spec \<in> set (main E F)" by (rule conjunct1)
    from a have a2: "ParseRange E spec = Inl err" by (rule conjunct2)
    from main_parse_failure [OF a1 a2]
    show "\<exists>pre label.
            (label = ''Error parsing critical range. Error: ''
             \<or> label = ''Error parsing warning range. Error: '')
            \<and> main E F = pre @ [ParseRangeCall spec, AddResult UNKNOWN (label @ err), Finish]
            \<and> results (main E F) = [(UNKNOWN, label @ err)]"
    proof (elim exE conjE)
      fix pre label
      assume l: "label = ''Error parsing critical range. Error: ''
                   \<or> label = ''Error parsing warning range. Error: ''"
        and e: "main E F = pre @ [ParseRangeCall spec, AddResult UNKNOWN (label @ err), Finish]"
        and p: "results pre = []"
      have r: "results (main E F) = [(UNKNOWN, label @ err)]"
        by (simp only: e trace_append p results.simps append_Nil)
      show ?thesis
        by (intro exI conjI) (rule l e r)+
    qed
  qed
  have c3: "\<forall>evs err.
         hostname F \<noteq> [] \<and> groupId F \<noteq> [] \<and> clientError E = None
         \<and> GetHostByName E \<lparr>api_hostname = server F\<rparr> 0 (groupId F) (hostname F) = (evs, Inl err) \<longrightarrow>
         main E F = evs @ [AddResult UNKNOWN err, Finish]
         \<and> results (main E F) = [(UNKNOWN, err)]"
  proof (intro allI impI)
    fix evs err
    assume a: "hostname F \<noteq> [] \<and> groupId F \<noteq> [] \<and> clientError E = None
         \<and> GetHostByName E \<lparr>api_hostname = server F\<rparr> 0 (groupId F) (hostname F) = (evs, Inl err)"
    then have h: "hostname F \<noteq> []" and g: "groupId F \<noteq> []" and c: "clientError E = None"
      and gh: "GetHostByName E \<lparr>api_hostname = server F\<rparr> 0 (groupId F) (hostname F) = (evs, Inl err)"
      by simp_all
    have tr: "main E F = evs @ [AddResult UNKNOWN err, Finish]"
      by (rule hostFetch_error [OF h g c gh])
    have s: "results evs = []"
      using GetHostByName_events [of E "\<lparr>api_hostname = server F\<rparr>" 0 "groupId F" "hostname F"]
      by (simp add: gh)
    have r: "results (main E F) = [(UNKNOWN, err)]"
      by (simp only: tr trace_append s results.simps append_Nil)
    show "main E F = evs @ [AddResult UNKNOWN err, Finish]
         \<and> results (main E F) = [(UNKNOWN, err)]"
      by (intro conjI) (rule tr r)+
  qed
  have c4: "\<forall>evs0 host evs err.
         hostname F \<noteq> [] \<and> groupId F \<noteq> [] \<and> clientError E = None
         \<and> GetHostByName E \<lparr>api_hostname = server F\<rparr> 0 (groupId F) (hostname F) = (evs0, Inr host)
         \<and> metricName F \<noteq> []
         \<and> fetchMetric E F \<lparr>api_hostname = server F\<rparr> host = (evs, Inl err) \<longrightarrow>
         main E F = evs0 @ evs @ [AddResult UNKNOWN err, Finish]
         \<and> results (main E F) = [(UNKNOWN, err)]"
  proof (intro allI impI)
    fix evs0 host evs err
    assume a: "hostname F \<noteq> [] \<and> groupId F \<noteq> [] \<and> clientError E = None
         \<and> GetHostByName E \<lparr>api_hostname = server F\<rparr> 0 (groupId F) (hostname F) = (evs0, Inr host)
         \<and> metricName F \<noteq> []
         \<and> fetchMetric E F \<lparr>api_hostname = server F\<rparr> host = (evs, Inl err)"
    then have h: "hostname F \<noteq> []" and g: "groupId F \<noteq> []" and c: "clientError E = None"
      and gh: "GetHostByName E \<lparr>api_hostname = server F\<rparr> 0 (groupId F) (hostname F) = (evs0, Inr host)"
      and mn: "metricName F \<noteq> []"
      and fm: "fetchMetric E F \<lparr>api_hostname = server F\<rparr> host = (evs, Inl err)"
      by simp_all
    have tr: "main E F = evs0 @ evs @ [AddResult UNKNOWN err, Finish]"
      using h g c mn by (simp add: main_def NewMMSAPI_def gh metricFetch_error [OF fm])
    have s0: "results evs0 = []"
      using GetHostByName_events [of E "\<lparr>api_hostname = server F\<rparr>" 0 "groupId F" "hostname F"]
      by (simp add: gh)
    have s1: "results evs = []"
      using fetchMetric_silent [OF fm] by (rule conjunct1)
    have r: "results (main E F) = [(UNKNOWN, err)]"
      by (simp only: tr trace_append s0 s1 results.simps append_Nil)
    show "main E F = evs0 @ evs @ [AddResult UNKNOWN err, Finish]
         \<and> results (main E F) = [(UNKNOWN, err)]"
      by (intro conjI) (rule tr r)+
  qed
  show ?thesis
    by (intro conjI) (rule c1 c2 c3 c4)+
qed

theorem failures_yield_single_unknown_witness:
  "ParseRangeCall ''bogus'' \<in> set (main (okEnv 500000000000) (sampleFlags [] [] ''0:200'' ''bogus''))
   \<and> ParseRange (okEnv 500000000000) ''bogus'' = Inl ''cannot parse range bogus''
   \<and> (\<exists>pre label.
            (label = ''Error parsing critical range. Error: ''
             \<or> label = ''Error parsing warning range. Error: '')
            \<and> main (okEnv 500000000000) (sampleFlags [] [] ''0:200'' ''bogus'')
                = pre @ [ParseRangeCall ''bogus'',
                         AddResult UNKNOWN (label @ ''cannot parse range bogus''), Finish]
            \<and> results (main (okEnv 500000000000) (sampleFlags [] [] ''0:200'' ''bogus''))
                = [(UNKNOWN, label @ ''cannot parse range bogus'')])
   \<and> results (main (okEnv 500000000000) (sampleFlags [] [] ''0:200'' ''bogus''))
       = [(UNKNOWN, ''Error parsing critical range. Error: cannot parse range bogus'')]
   \<and> GetHostByName timeoutEnv \<lparr>api_hostname = server (sampleFlags [] [] ''~:'' ''~:'')\<rparr> 0
       (groupId (sampleFlags [] [] ''~:'' ''~:'')) (hostname (sampleFlags [] [] ''~:'' ''~:''))
       = ([HttpGet ''https://mms.mongodb.com/api/public/v1.0/groups/g1/hosts/byName/db1:27017''],
          Inl ''Failed to make HTTP request. Error: dial tcp: i/o timeout'')
   \<and> results (main timeoutEnv (sampleFlags [] [] ''~:'' ''~:''))
       = [(UNKNOWN, ''Failed to make HTTP request. Error: dial tcp: i/o timeout'')]
   \<and> fetchMetric badGatewayEnv (sampleFlags ''OPCOUNTERS_CMD'' [] ''~:'' ''~:'')
       \<lparr>api_hostname = server (sampleFlags ''OPCOUNTERS_CMD'' [] ''~:'' ''~:'')\<rparr> sampleHost
       = ([HttpGet ''https://mms.mongodb.com/api/public/v1.0/groups/g1/hosts/h1/metrics/OPCOUNTERS_CMD?granularity=MINUTE&period=PT1H''],
          Inl ''API response did not contain valid JSON. Body: <html>Bad Gateway</html>'')
   \<and> results (main badGatewayEnv (sampleFlags ''OPCOUNTERS_CMD'' [] ''~:'' ''~:''))
       = [(UNKNOWN, ''API response did not contain valid JSON. Body: <html>Bad Gateway</html>'')]"
proof -
  note t1 = failures_yield_single_unknown
              [where E = "okEnv 500000000000" and F = "sampleFlags [] [] ''0:200'' ''bogus''"]
  note t2 = failures_yield_single_unknown
              [where E = timeoutEnv and F = "sampleFlags [] [] ''~:'' ''~:''"]
  note t3 = failures_yield_single_unknown
              [where E = badGatewayEnv and F = "sampleFlags ''OPCOUNTERS_CMD'' [] ''~:'' ''~:''"]
  have m1: "ParseRangeCall ''bogus'' \<in> set (main (okEnv 500000000000) (sampleFlags [] [] ''0:200'' ''bogus''))"
    by (simp add: main_bogus_critical)
  have f1: "ParseRange (okEnv 500000000000) ''bogus'' = Inl ''cannot parse range bogus''"
    by (simp add: okEnv_simps sampleParseRange_simps)
  have e1: "\<exists>pre label.
            (label = ''Error parsing critical range. Error: ''
             \<or> label = ''Error parsing warning range. Error: '')
            \<and> main (okEnv 500000000000) (sampleFlags [] [] ''0:200'' ''bogus'')
                = pre @ [ParseRangeCall ''bogus'',
                         AddResult UNKNOWN (label @ ''cannot parse range bogus''), Finish]
            \<and> results (main (okEnv 500000000000) (sampleFlags [] [] ''0:200'' ''bogus''))
                = [(UNKNOWN, label @ ''cannot parse range bogus'')]"
    by (rule t1 [THEN conjunct2, THEN conjunct1, rule_format, OF conjI, OF m1 f1])
  have r1: "results (main (okEnv 500000000000) (sampleFlags [] [] ''0:200'' ''bogus''))
       = [(UNKNOWN, ''Error parsing critical range. Error: cannot parse range bogus'')]"
    by (simp add: main_bogus_critical)
  have c2: "clientError timeoutEnv = None" by (simp add: timeoutEnv_def sampleEnv_def)
  have r2: "results (main timeoutEnv (sampleFlags [] [] ''~:'' ''~:''))
       = [(UNKNOWN, ''Failed to make HTTP request. Error: dial tcp: i/o timeout'')]"
    using t2 [THEN conjunct2, THEN conjunct2, THEN conjunct1, rule_format, OF conjI,
              OF sampleFlags_required(1) conjI, OF sampleFlags_required(2) conjI,
              OF c2 timeoutEnv_GetHostByName]
    by blast
  have c3: "clientError badGatewayEnv = None" by (simp add: badGatewayEnv_def sampleEnv_def)
  have n3: "metricName (sampleFlags ''OPCOUNTERS_CMD'' [] ''~:'' ''~:'') \<noteq> []"
    by (simp add: sampleFlags_def)
  have r3: "results (main badGatewayEnv (sampleFlags ''OPCOUNTERS_CMD'' [] ''~:'' ''~:''))
       = [(UNKNOWN, ''API response did not contain valid JSON. Body: <html>Bad Gateway</html>'')]"
    using t3 [THEN conjunct2, THEN conjunct2, THEN conjunct2, rule_format, OF conjI,
              OF sampleFlags_required(1) conjI, OF sampleFlags_required(2) conjI,
              OF c3 conjI, OF badGatewayEnv_GetHostByName conjI, OF n3 badGatewayEnv_fetchMetric]
    by blast
  show ?thesis
    by (intro conjI) (rule m1 f1 e1 r1 timeoutEnv_GetHostByName r2 badGatewayEnv_fetchMetric r3)+
qed

end
